theory Spec2Isabelle
  imports Complex_Main "HOL-Library.Sublist" "HOL-Library.AList"
begin

section \<open>Bootstrap layer of the chatbot backend (backend/app/main.py)\<close>

text \<open>
  The module builds a FastAPI application: it detects optional subsystems at import
  time, registers middleware, defines the lifespan context manager and the legacy
  \<open>on_event\<close> hooks, and serves \<open>/\<close>, the single-page-application fallback,
  \<open>/health\<close>, \<open>/health/simple\<close> and \<open>/metrics\<close>.

  Conventions of the embedding.
  \<^item> A Python value that ends up in a JSON body is a \<open>pyval\<close>; a \<open>dict\<close> is an
    association list in insertion order, \<open>d[k] = v\<close> is \<open>AList.update k v d\<close>.
  \<^item> Python floats (\<open>time.time()\<close>, percentages) are read as reals; no property below
    depends on rounding.
  \<^item> An exception is a value \<open>PyExc cls msg\<close> with \<open>str(e) = msg\<close>. Only instances of
    \<open>Exception\<close> are modelled, the class every \<open>except Exception\<close> of the module
    catches; interpreter signals outside that class (KeyboardInterrupt, SystemExit) are
    not failures of a subsystem and are left out.
  \<^item> Every call into a collaborator that is not part of this module (database,
    tracing, enterprise service manager, psutil, the settings object, the clock, the
    file system) takes its outcome from an environment record, so that each theorem
    quantifies over everything the collaborator may do: return or raise, and, for the
    probes that the health check awaits, never complete.
  \<^item> Log messages are kept without their non-ASCII pictographs and the space that
    follows each.
\<close>

subsection \<open>Values, exceptions, handler results\<close>

datatype pyval =
    PNone
  | PBool bool
  | PInt int
  | PFloat real
  | PStr string
  | PList "pyval list"
  | PDict "(string \<times> pyval) list"

text \<open>Python truthiness, as used by \<open>bool(x)\<close> and by \<open>a if x else b\<close>.\<close>

fun truthy :: "pyval \<Rightarrow> bool" where
  "truthy PNone = False"
| "truthy (PBool b) = b"
| "truthy (PInt i) = (i \<noteq> 0)"
| "truthy (PFloat r) = (r \<noteq> 0)"
| "truthy (PStr s) = (s \<noteq> [])"
| "truthy (PList xs) = (xs \<noteq> [])"
| "truthy (PDict kvs) = (kvs \<noteq> [])"

datatype exn = PyExc string string

fun str_exn :: "exn \<Rightarrow> string" where
  "str_exn (PyExc cls msg) = msg"

text \<open>
  What a route handler does: return a value (FastAPI sends it as a 200 JSON body),
  return a \<open>FileResponse\<close>, raise \<open>HTTPException(status_code, detail)\<close>, or let
  another exception escape.
\<close>

datatype handler_result =
    Returned pyval
  | ReturnedFile string
  | RaisedHTTP nat string
  | Raised exn

fun keys :: "pyval \<Rightarrow> string list" where
  "keys (PDict kvs) = map fst kvs"
| "keys _ = []"

fun lookup :: "pyval \<Rightarrow> string \<Rightarrow> pyval option" where
  "lookup (PDict kvs) k = map_of kvs k"
| "lookup _ k = None"

subsection \<open>Settings, clock, file system\<close>

text \<open>
  \<open>app.core.config.settings\<close> is not part of the module. An attribute read at request
  time is \<open>None\<close> when the settings object has no such attribute, and the read then
  raises \<open>AttributeError\<close>. \<open>DEBUG\<close> is read while the module is imported, so it has
  a value whenever the application exists. The class of the settings object is taken
  to be named \<open>Settings\<close>; only the text of the error message depends on the name.
\<close>

record settings =
  ENVIRONMENT :: "string option"
  RAILWAY_ENVIRONMENT :: "pyval option"
  ENABLE_TRACING :: "pyval option"
  DEBUG :: bool

definition quoted :: "string \<Rightarrow> string" where
  "quoted s = [CHR 0x27] @ s @ [CHR 0x27]"

definition attribute_error :: "string \<Rightarrow> string \<Rightarrow> exn" where
  "attribute_error obj attr =
     PyExc ''AttributeError'' (quoted obj @ '' object has no attribute '' @ quoted attr)"

definition get_ENVIRONMENT :: "settings \<Rightarrow> exn + string" where
  "get_ENVIRONMENT st =
     (case ENVIRONMENT st of
        None \<Rightarrow> Inl (attribute_error ''Settings'' ''ENVIRONMENT'')
      | Some v \<Rightarrow> Inr v)"

definition get_RAILWAY_ENVIRONMENT :: "settings \<Rightarrow> exn + pyval" where
  "get_RAILWAY_ENVIRONMENT st =
     (case RAILWAY_ENVIRONMENT st of
        None \<Rightarrow> Inl (attribute_error ''Settings'' ''RAILWAY_ENVIRONMENT'')
      | Some v \<Rightarrow> Inr v)"

text \<open>\<open>getattr(settings, 'ENABLE_TRACING', False)\<close>, then its truth value.\<close>

definition enable_tracing :: "settings \<Rightarrow> bool" where
  "enable_tracing st = (case ENABLE_TRACING st of None \<Rightarrow> False | Some v \<Rightarrow> truthy v)"

text \<open>
  The clock: \<open>time.time()\<close>, and \<open>datetime.utcnow().isoformat()\<close> as read in the body
  of a handler and as read again in its \<open>except\<close> clause.
\<close>

record clock =
  time_time :: real
  utcnow_iso :: string
  utcnow_iso_except :: string

text \<open>The file system answers \<open>Path.exists()\<close>.\<close>

type_synonym filesystem = "string \<Rightarrow> bool"

definition index_file :: string where
  "index_file = ''static/index.html''"

subsection \<open>Static routes\<close>

text \<open>\<open>str.startswith\<close> on a single prefix.\<close>

definition startswith :: "string \<Rightarrow> string \<Rightarrow> bool" where
  "startswith s p = (take (length p) s = p)"

definition root :: "filesystem \<Rightarrow> handler_result" where
  "root fs =
     (if fs index_file then ReturnedFile index_file
      else Returned (PDict
        [(''message'', PStr ''Modern Chatbot Backend API''),
         (''version'', PStr ''1.0.0''),
         (''status'', PStr ''running''),
         (''features'', PList
            [PStr ''Enhanced RAG System'',
             PStr ''Document Management'',
             PStr ''Real-time Chat Monitoring'',
             PStr ''Advanced Security'',
             PStr ''Comprehensive Analytics'',
             PStr ''Multi-provider AI Support''])]))"

definition serve_spa :: "filesystem \<Rightarrow> string \<Rightarrow> handler_result" where
  "serve_spa fs full_path =
     (if startswith full_path ''api/'' \<or> startswith full_path ''docs''
         \<or> startswith full_path ''redoc''
      then RaisedHTTP 404 ''Not found''
      else if fs index_file then ReturnedFile index_file
      else RaisedHTTP 404 ''Frontend not available'')"

text \<open>
  \<open>GET /health/simple\<close>: a dict literal whose entries are evaluated in order, outside
  any \<open>try\<close>.
\<close>

definition simple_health_check :: "settings \<Rightarrow> clock \<Rightarrow> handler_result" where
  "simple_health_check st ck =
     (case get_ENVIRONMENT st of
        Inl e \<Rightarrow> Raised e
      | Inr environment \<Rightarrow>
          (case get_RAILWAY_ENVIRONMENT st of
             Inl e \<Rightarrow> Raised e
           | Inr railway \<Rightarrow>
               Returned (PDict
                 [(''status'', PStr ''healthy''),
                  (''environment'', PStr environment),
                  (''timestamp'', PStr (utcnow_iso ck)),
                  (''railway'', PBool (truthy railway))])))"


subsection \<open>Capabilities detected at import time\<close>

text \<open>
  The guarded imports at the top of the module leave three facts behind:
  \<open>init_database\<close> is the function or \<open>None\<close>; \<open>TRACING_AVAILABLE\<close>;
  \<open>ENTERPRISE_AVAILABLE\<close>, which is set together with \<open>enterprise_service_manager\<close>
  (an \<open>EnterpriseServiceManager\<close> instance when the flag is true, \<open>None\<close> when it
  is false). An instance is taken to be truthy, as an object without \<open>__bool__\<close> and
  \<open>__len__\<close> is, so \<open>ENTERPRISE_AVAILABLE and enterprise_service_manager\<close> is the
  flag.
\<close>

record capabilities =
  init_database_available :: bool
  TRACING_AVAILABLE :: bool
  ENTERPRISE_AVAILABLE :: bool

subsection \<open>Effects: calls into subsystems, the log, application state\<close>

datatype call =
    Tracing_initialize
  | Init_database
  | Initialize_all_services
  | Import_module string
  | Observability_initialize
  | Create_stream string
  | Create_default_experiments
  | Shutdown_all_services
  | Db_cleanup

datatype level = INFO | WARNING | ERROR

record state =
  start_time :: "real option"
  trace :: "call list"
  log :: "(level \<times> string) list"

text \<open>
  The outcome of each call: \<open>None\<close> when it returns, \<open>Some e\<close> when it raises \<open>e\<close>.
\<close>

type_synonym outcomes = "call \<Rightarrow> exn option"

text \<open>
  A piece of code is a function from the state to the exception it raised, if any,
  and the state it left behind: what was called and logged before a raise stays.
\<close>

type_synonym prog = "state \<Rightarrow> exn option \<times> state"

definition invoke :: "outcomes \<Rightarrow> call \<Rightarrow> prog" where
  "invoke out c s = (out c, s\<lparr>trace := trace s @ [c]\<rparr>)"

definition logger :: "level \<Rightarrow> string \<Rightarrow> prog" where
  "logger l m s = (None, s\<lparr>log := log s @ [(l, m)]\<rparr>)"

definition raise :: "exn \<Rightarrow> prog" where
  "raise e s = (Some e, s)"

definition seq :: "prog \<Rightarrow> prog \<Rightarrow> prog" where
  "seq p q s = (case p s of (None, s') \<Rightarrow> q s' | (Some e, s') \<Rightarrow> (Some e, s'))"

fun block :: "prog list \<Rightarrow> prog" where
  "block [] s = (None, s)"
| "block (p # ps) s = seq p (block ps) s"

text \<open>\<open>try: p  except Exception as e: h e\<close>\<close>

definition try_except :: "prog \<Rightarrow> (exn \<Rightarrow> prog) \<Rightarrow> prog" where
  "try_except p h s = (case p s of (None, s') \<Rightarrow> (None, s') | (Some e, s') \<Rightarrow> h e s')"

subsection \<open>The lifespan context manager\<close>

text \<open>The part of \<open>lifespan\<close> before \<open>yield\<close>.\<close>

definition lifespan_startup :: "capabilities \<Rightarrow> settings \<Rightarrow> clock \<Rightarrow> outcomes \<Rightarrow> prog" where
  "lifespan_startup caps st ck out = block
     [logger INFO ''Starting up chatbot backend...'',
      (\<lambda>s. (None, s\<lparr>start_time := Some (time_time ck)\<rparr>)),
      if TRACING_AVAILABLE caps \<and> enable_tracing st
      then try_except
             (block [invoke out Tracing_initialize,
                     logger INFO ''Distributed tracing initialized''])
             (\<lambda>e. logger ERROR (''Tracing initialization failed: '' @ str_exn e))
      else logger INFO ''Tracing disabled or not available'',
      if init_database_available caps
      then try_except
             (block [invoke out Init_database,
                     logger INFO ''Database initialized successfully''])
             (\<lambda>e. logger ERROR (''Database initialization failed: '' @ str_exn e))
      else logger WARNING ''Database initialization skipped - running in minimal mode'',
      if ENTERPRISE_AVAILABLE caps
      then try_except
             (block [invoke out Initialize_all_services,
                     logger INFO ''Enterprise services initialized'',
                     invoke out (Import_module ''app.core.observability''),
                     invoke out (Import_module ''app.core.event_streaming''),
                     invoke out (Import_module ''app.core.chaos_engineering''),
                     invoke out Observability_initialize,
                     invoke out (Create_stream ''performance''),
                     invoke out (Create_stream ''security''),
                     invoke out (Create_stream ''errors''),
                     invoke out (Create_stream ''business''),
                     invoke out Create_default_experiments,
                     logger INFO ''Enterprise components initialized''])
             (\<lambda>e. logger ERROR (''Enterprise service initialization failed: '' @ str_exn e))
      else logger INFO ''Enterprise services not available'']"

text \<open>The part of \<open>lifespan\<close> after \<open>yield\<close>.\<close>

definition lifespan_shutdown :: "capabilities \<Rightarrow> outcomes \<Rightarrow> prog" where
  "lifespan_shutdown caps out = block
     [logger INFO ''Shutting down chatbot backend...'',
      if ENTERPRISE_AVAILABLE caps
      then try_except
             (block [invoke out Shutdown_all_services,
                     logger INFO ''Enterprise services shutdown complete''])
             (\<lambda>e. logger ERROR (''Enterprise service shutdown failed: '' @ str_exn e))
      else block [],
      try_except
        (block [invoke out (Import_module ''app.core.database''),
                invoke out Db_cleanup,
                logger INFO ''Database connections cleaned up''])
        (\<lambda>e. logger ERROR (''Database cleanup failed: '' @ str_exn e))]"

subsection \<open>The legacy \<open>on_event\<close> hooks\<close>

definition startup_banner :: "string list" where
  "startup_banner =
     [''Application startup completed successfully!'',
      ''WORLD-CLASS AI PLATFORM - INDUSTRY LEADER STATUS:'',
      ''   Cache Service (Redis + Fallback)'',
      ''   Performance Monitoring'',
      ''   Rate Limiting'',
      ''   Health Checks'',
      ''   Error Tracking & Recovery'',
      ''   WebSocket Manager'',
      ''   Multi-Tenant Architecture'',
      ''   AI Auto-Scaling'',
      ''   Security Intelligence'',
      ''   Advanced Analytics'',
      ''   Conversation Intelligence'',
      ''   Real-Time Collaboration'',
      ''   Content Moderation & AI Safety'',
      ''   Knowledge Graph & Semantic Understanding'',
      ''   Predictive Machine Learning'',
      ''   Enterprise-Grade Security'',
      ''   Sub-100ms Performance'',
      ''   Global Scale Ready'']"

text \<open>
  \<open>startup_event\<close>: the call of \<open>init_database\<close> stands outside any \<open>try\<close>; the
  production check reads \<open>settings.ENVIRONMENT\<close>, also outside any \<open>try\<close>.
\<close>

definition startup_event :: "capabilities \<Rightarrow> settings \<Rightarrow> outcomes \<Rightarrow> prog" where
  "startup_event caps st out = block
     [logger INFO ''Starting Modern Chatbot Backend...'',
      if init_database_available caps
      then invoke out Init_database
      else logger WARNING ''Database initialization skipped - running in minimal mode'',
      if TRACING_AVAILABLE caps
      then try_except
             (block [invoke out Tracing_initialize,
                     logger INFO ''Tracing service initialized''])
             (\<lambda>e. logger ERROR (''Tracing initialization failed: '' @ str_exn e))
      else logger INFO ''Tracing service not available'',
      if ENTERPRISE_AVAILABLE caps
      then try_except
             (block [invoke out Initialize_all_services,
                     logger INFO ''Available services initialized''])
             (\<lambda>e. logger ERROR (''Service initialization failed: '' @ str_exn e))
      else logger INFO ''Running in basic mode - enterprise services not available'',
      (case get_ENVIRONMENT st of
         Inl e \<Rightarrow> raise e
       | Inr environment \<Rightarrow>
           if environment = ''production''
           then block [logger INFO ''Setting up production environment...'',
                       logger INFO ''Digital Ocean production environment ready'']
           else block []),
      block (map (logger INFO) startup_banner)]"

text \<open>
  \<open>shutdown_event\<close>: \<open>await enterprise_service_manager.shutdown_all_services()\<close> with
  no guard; the attribute lookup on \<open>None\<close> raises before anything is called.
\<close>

definition shutdown_event :: "capabilities \<Rightarrow> outcomes \<Rightarrow> prog" where
  "shutdown_event caps out = block
     [logger INFO ''Shutting down application...'',
      if ENTERPRISE_AVAILABLE caps
      then invoke out Shutdown_all_services
      else raise (attribute_error ''NoneType'' ''shutdown_all_services''),
      logger INFO ''Application shutdown completed'']"


subsection \<open>Which lifecycle code the framework runs\<close>

text \<open>
  The application is constructed as \<open>FastAPI(..., lifespan=lifespan)\<close>, and the two
  hooks are registered with \<open>@app.on_event\<close>, which appends them to the router's
  \<open>on_startup\<close> and \<open>on_shutdown\<close> lists. The router (Starlette) runs these lists
  only from its default lifespan context, and it installs the default context only when
  no \<open>lifespan\<close> argument was given; with one, the given context manager is all that
  runs at startup (up to its \<open>yield\<close>) and at shutdown (after it). What routers
  included from other modules contribute to the lifespan is outside this module.
\<close>

definition router_startup :: "prog option \<Rightarrow> prog list \<Rightarrow> prog" where
  "router_startup lifespan_enter on_startup =
     (case lifespan_enter of
        None \<Rightarrow> block on_startup
      | Some enter \<Rightarrow> enter)"

definition router_shutdown :: "prog option \<Rightarrow> prog list \<Rightarrow> prog" where
  "router_shutdown lifespan_exit on_shutdown =
     (case lifespan_exit of
        None \<Rightarrow> block on_shutdown
      | Some exit \<Rightarrow> exit)"

text \<open>Startup and shutdown of this application.\<close>

definition app_startup :: "capabilities \<Rightarrow> settings \<Rightarrow> clock \<Rightarrow> outcomes \<Rightarrow> prog" where
  "app_startup caps st ck out =
     router_startup (Some (lifespan_startup caps st ck out)) [startup_event caps st out]"

definition app_shutdown :: "capabilities \<Rightarrow> outcomes \<Rightarrow> prog" where
  "app_shutdown caps out =
     router_shutdown (Some (lifespan_shutdown caps out)) [shutdown_event caps out]"

subsection \<open>\<open>GET /health\<close>\<close>

text \<open>
  What an awaited probe does: it returns a value, it raises, or it never completes.
  The handler awaits \<open>db_manager.check_connection()\<close> and then
  \<open>enterprise_service_manager.health_check_all_services()\<close>, neither under a
  timeout, so the third outcome is part of what the handler can meet.
  \<open>from app.core.database import db_manager\<close> is an import: it succeeds or raises.
\<close>

datatype 'a awaited = Returns 'a | Raises exn | Hangs

record probes =
  import_db_manager :: "exn option"
  check_connection :: "pyval awaited"
  health_check_all_services :: "(string \<times> pyval) list awaited"

text \<open>
  \<open>time.time() - app.state.start_time if hasattr(app.state, 'start_time') else 0\<close>
\<close>

definition uptime_seconds :: "clock \<Rightarrow> state \<Rightarrow> pyval" where
  "uptime_seconds ck s =
     (case start_time s of
        Some t \<Rightarrow> PFloat (time_time ck - t)
      | None \<Rightarrow> PInt 0)"

text \<open>
  The inner \<open>try\<close> around the database probe: the value stored under \<open>database\<close>,
  or \<open>None\<close> when the awaited call never completes.
\<close>

definition database_status :: "probes \<Rightarrow> string option" where
  "database_status pr =
     (case import_db_manager pr of
        Some e \<Rightarrow> Some (''not_available: '' @ str_exn e)
      | None \<Rightarrow>
          (case check_connection pr of
             Raises e \<Rightarrow> Some (''not_available: '' @ str_exn e)
           | Returns db_connected \<Rightarrow>
               Some (if truthy db_connected then ''healthy'' else ''unhealthy'')
           | Hangs \<Rightarrow> None))"

text \<open>
  The inner \<open>try\<close> around the service probe: the value stored under \<open>services\<close>,
  or \<open>None\<close> when the awaited call never completes.
  \<open>service_health["services"]\<close> raises \<open>KeyError('services')\<close> on a missing key,
  whose \<open>str\<close> is the quoted key.
\<close>

definition services_status :: "probes \<Rightarrow> pyval option" where
  "services_status pr =
     (case health_check_all_services pr of
        Raises e \<Rightarrow> Some (PStr (''error: '' @ str_exn e))
      | Returns service_health \<Rightarrow>
          (case map_of service_health ''services'' of
             None \<Rightarrow> Some (PStr (''error: '' @ str_exn (PyExc ''KeyError'' (quoted ''services''))))
           | Some v \<Rightarrow> Some v)
      | Hangs \<Rightarrow> None)"

text \<open>
  The handler, statement by statement; its result is \<open>None\<close> when it never returns.
  The database probe is awaited first, and the service probe is not started before it
  has completed.
\<close>

definition health_check ::
  "capabilities \<Rightarrow> settings \<Rightarrow> clock \<Rightarrow> probes \<Rightarrow> state \<Rightarrow> handler_result option" where
  "health_check caps st ck pr s =
     (case get_ENVIRONMENT st of
        Inl e \<Rightarrow>
          Some (Returned (PDict
            [(''status'', PStr ''unhealthy''),
             (''timestamp'', PStr (utcnow_iso_except ck)),
             (''error'', PStr (str_exn e))]))
      | Inr environment \<Rightarrow>
          (case database_status pr of
             None \<Rightarrow> None
           | Some database \<Rightarrow>
               (let health_status =
                      [(''status'', PStr ''healthy''),
                       (''timestamp'', PStr (utcnow_iso ck)),
                       (''version'', PStr ''1.0.0''),
                       (''environment'', PStr environment),
                       (''uptime_seconds'', uptime_seconds ck s)];
                    health_status = AList.update ''database'' (PStr database) health_status
                in if ENTERPRISE_AVAILABLE caps
                   then (case services_status pr of
                           None \<Rightarrow> None
                         | Some services \<Rightarrow>
                             Some (Returned (PDict
                               (AList.update ''services'' services health_status))))
                   else Some (Returned (PDict health_status)))))"

subsection \<open>\<open>GET /metrics\<close>\<close>

text \<open>The named tuples of psutil, with the fields the handler reads.\<close>

record svmem =
  mem_total :: int
  mem_available :: int
  mem_percent :: real

record sdiskusage =
  disk_total :: int
  disk_used :: int

record pmem =
  rss :: int
  vms :: int

text \<open>Each read of psutil returns or raises.\<close>

record psutil =
  cpu_percent :: "exn + real"
  virtual_memory :: "exn + svmem"
  disk_usage :: "exn + sdiskusage"
  Process :: "exn option"
  memory_info :: "exn + pmem"
  process_cpu_percent :: "exn + real"
  num_threads :: "exn + int"

definition bind :: "exn + 'a \<Rightarrow> ('a \<Rightarrow> exn + 'b) \<Rightarrow> exn + 'b" where
  "bind m f = (case m of Inl e \<Rightarrow> Inl e | Inr x \<Rightarrow> f x)"

text \<open>\<open>(disk.used / disk.total) * 100\<close>: true division of two ints.\<close>

definition disk_percent :: "sdiskusage \<Rightarrow> exn + real" where
  "disk_percent disk =
     (if disk_total disk = 0 then Inl (PyExc ''ZeroDivisionError'' ''division by zero'')
      else Inr (real_of_int (disk_used disk) / real_of_int (disk_total disk) * 100))"

text \<open>\<open>app.state.start_time\<close>, read without \<open>hasattr\<close>.\<close>

definition get_start_time :: "state \<Rightarrow> exn + real" where
  "get_start_time s =
     (case start_time s of
        None \<Rightarrow> Inl (attribute_error ''State'' ''start_time'')
      | Some t \<Rightarrow> Inr t)"

text \<open>The body of the \<open>try\<close>, in the order in which Python evaluates it.\<close>

definition metrics_data :: "settings \<Rightarrow> clock \<Rightarrow> psutil \<Rightarrow> state \<Rightarrow> exn + pyval" where
  "metrics_data st ck ps s =
     bind (cpu_percent ps) (\<lambda>cpu.
     bind (virtual_memory ps) (\<lambda>memory.
     bind (disk_usage ps) (\<lambda>disk.
     bind (case Process ps of Some e \<Rightarrow> Inl e | None \<Rightarrow> Inr ()) (\<lambda>process.
     bind (memory_info ps) (\<lambda>process_memory.
     bind (disk_percent disk) (\<lambda>system_disk_percent.
     bind (process_cpu_percent ps) (\<lambda>pcpu.
     bind (num_threads ps) (\<lambda>threads.
     bind (get_start_time s) (\<lambda>started.
     bind (get_ENVIRONMENT st) (\<lambda>environment.
       Inr (PDict
         [(''system_cpu_percent'', PFloat cpu),
          (''system_memory_total'', PInt (mem_total memory)),
          (''system_memory_available'', PInt (mem_available memory)),
          (''system_memory_percent'', PFloat (mem_percent memory)),
          (''system_disk_total'', PInt (disk_total disk)),
          (''system_disk_used'', PInt (disk_used disk)),
          (''system_disk_percent'', PFloat system_disk_percent),
          (''process_memory_rss'', PInt (rss process_memory)),
          (''process_memory_vms'', PInt (vms process_memory)),
          (''process_cpu_percent'', PFloat pcpu),
          (''process_num_threads'', PInt threads),
          (''app_uptime_seconds'', PFloat (time_time ck - started)),
          (''app_environment'', PStr environment),
          (''timestamp'', PStr (utcnow_iso ck))])))))))))))"

definition metrics :: "settings \<Rightarrow> clock \<Rightarrow> psutil \<Rightarrow> state \<Rightarrow> handler_result" where
  "metrics st ck ps s =
     (case metrics_data st ck ps s of
        Inr data \<Rightarrow> Returned data
      | Inl e \<Rightarrow>
          Returned (PDict
            [(''error'', PStr ''metrics_collection_failed''),
             (''message'', PStr (str_exn e)),
             (''timestamp'', PStr (utcnow_iso_except ck))]))"

subsection \<open>Middleware registration\<close>

text \<open>
  The module registers its middleware through the framework: \<open>app.add_middleware(cls)\<close>
  and the decorator \<open>app.middleware("http")(f)\<close>, which is
  \<open>add_middleware(BaseHTTPMiddleware, dispatch=f)\<close>. The framework is Starlette, whose
  \<open>add_middleware\<close> is \<open>self.user_middleware.insert(0, Middleware(cls, ...))\<close> and
  whose \<open>build_middleware_stack\<close> wraps the router in
  \<open>[ServerErrorMiddleware] + user_middleware + [ExceptionMiddleware]\<close>, taking the list
  in reverse, so that the head of the list is the outermost layer: the middleware
  registered last is the first to see a request.
\<close>

datatype middleware =
    ServerErrorMiddleware
  | ExceptionMiddleware
  | CORSMiddleware
  | TrustedHostMiddleware
  | EnterpriseMiddleware
  | ErrorHandlingMiddleware
  | SecurityEnhancementMiddleware
  | MultiTenantMiddleware
  | Rate_limit_middleware

definition add_middleware :: "middleware \<Rightarrow> middleware list \<Rightarrow> middleware list" where
  "add_middleware m user_middleware = m # user_middleware"

text \<open>The registrations of the module, in the order of its statements.\<close>

definition registrations :: "settings \<Rightarrow> middleware list" where
  "registrations st =
     [CORSMiddleware]
     @ (if \<not> DEBUG st then [TrustedHostMiddleware] else [])
     @ [EnterpriseMiddleware,
        ErrorHandlingMiddleware,
        SecurityEnhancementMiddleware,
        MultiTenantMiddleware,
        Rate_limit_middleware]"

definition user_middleware :: "settings \<Rightarrow> middleware list" where
  "user_middleware st = foldl (\<lambda>um m. add_middleware m um) [] (registrations st)"

datatype asgi_app = Router | Wrap middleware asgi_app

definition build_middleware_stack :: "settings \<Rightarrow> asgi_app" where
  "build_middleware_stack st =
     foldl (\<lambda>app m. Wrap m app) Router
       (rev ([ServerErrorMiddleware] @ user_middleware st @ [ExceptionMiddleware]))"

text \<open>The layers a request passes, outermost first, before it reaches the router.\<close>

fun layers :: "asgi_app \<Rightarrow> middleware list" where
  "layers Router = []"
| "layers (Wrap m app) = m # layers app"

subsection \<open>Route dispatch\<close>

text \<open>
  The routes of the application, in the order in which they are registered: the
  documentation routes that \<open>FastAPI(...)\<close> adds when it is constructed
  (\<open>/openapi.json\<close> always; \<open>/docs\<close>, \<open>/docs/oauth2-redirect\<close> and \<open>/redoc\<close>
  when \<open>settings.DEBUG\<close>), the routes of the five included routers under the prefix
  \<open>/api/v1\<close>, the mount of \<open>/static\<close> when the directory \<open>./static\<close> exists at
  import time, and then the routes the module declares: \<open>/\<close>, the catch-all
  \<open>/{full_path:path}\<close>, \<open>/health\<close>, \<open>/health/simple\<close>, \<open>/metrics\<close>.
  The included routers are not part of the module; which paths they serve is a
  parameter. Neither is the middleware, which stands in front of the router: what
  follows is the answer to a request that reaches the router.
\<close>

datatype route =
    Openapi_route
  | Docs_route
  | Docs_oauth2_redirect_route
  | Redoc_route
  | Included_route
  | Static_mount
  | Root_route
  | Serve_spa_route
  | Health_route
  | Health_simple_route
  | Metrics_route

record deployment =
  capabilities_of :: capabilities
  settings_of :: settings
  static_dir_exists :: bool
  included_paths :: "string \<Rightarrow> bool"

definition routes :: "deployment \<Rightarrow> route list" where
  "routes dep =
     [Openapi_route]
     @ (if DEBUG (settings_of dep)
        then [Docs_route, Docs_oauth2_redirect_route, Redoc_route] else [])
     @ [Included_route]
     @ (if static_dir_exists dep then [Static_mount] else [])
     @ [Root_route, Serve_spa_route, Health_route, Health_simple_route, Metrics_route]"

text \<open>
  A route path is compiled to a regular expression that must match the whole request
  path. A literal path \<open>/x\<close> becomes \<open>^/x$\<close>; in Python \<open>$\<close> matches at the end
  and also before a line break that ends the string. The convertor \<open>path\<close> is
  \<open>.*\<close>, where \<open>.\<close> is any character but a line break.
\<close>

definition newline :: char where
  "newline = CHR 0x0A"

definition regex_literal :: "string \<Rightarrow> string \<Rightarrow> bool" where
  "regex_literal lit p = (p = lit \<or> p = lit @ [newline])"

text \<open>What \<open>(?P<name>.*)$\<close> captures from the rest of a path, if it matches.\<close>

definition path_convertor :: "string \<Rightarrow> string option" where
  "path_convertor rest =
     (if newline \<notin> set rest then Some rest
      else if newline \<notin> set (butlast rest) then Some (butlast rest)
      else None)"

text \<open>The parameter \<open>full_path\<close> of \<open>/{full_path:path}\<close>.\<close>

fun full_path_of :: "string \<Rightarrow> string option" where
  "full_path_of [] = None"
| "full_path_of (c # rest) = (if c = CHR ''/'' then path_convertor rest else None)"

text \<open>Whether a route matches the path of a GET request.\<close>

fun route_matches :: "deployment \<Rightarrow> route \<Rightarrow> string \<Rightarrow> bool" where
  "route_matches dep Openapi_route p = regex_literal ''/openapi.json'' p"
| "route_matches dep Docs_route p = regex_literal ''/docs'' p"
| "route_matches dep Docs_oauth2_redirect_route p = regex_literal ''/docs/oauth2-redirect'' p"
| "route_matches dep Redoc_route p = regex_literal ''/redoc'' p"
| "route_matches dep Included_route p = (startswith p ''/api/v1'' \<and> included_paths dep p)"
| "route_matches dep Static_mount p =
     (startswith p ''/static/'' \<and> path_convertor (drop (length ''/static/'') p) \<noteq> None)"
| "route_matches dep Root_route p = regex_literal ''/'' p"
| "route_matches dep Serve_spa_route p = (full_path_of p \<noteq> None)"
| "route_matches dep Health_route p = regex_literal ''/health'' p"
| "route_matches dep Health_simple_route p = regex_literal ''/health/simple'' p"
| "route_matches dep Metrics_route p = regex_literal ''/metrics'' p"

text \<open>The router hands a request to the first route that matches.\<close>

definition resolve :: "deployment \<Rightarrow> string \<Rightarrow> route option" where
  "resolve dep p = find (\<lambda>r. route_matches dep r p) (routes dep)"

text \<open>
  The answer of the router to a GET request: what the handler of this module does
  (\<open>None\<close> when it never returns), a route that is served outside this module, or
  no route at all, which the router answers itself.
\<close>

datatype response =
    Handled "handler_result option"
  | Delegated route
  | Unrouted

definition handle_get ::
  "deployment \<Rightarrow> clock \<Rightarrow> filesystem \<Rightarrow> probes \<Rightarrow> psutil \<Rightarrow> state \<Rightarrow> string \<Rightarrow> response" where
  "handle_get dep ck fs pr ps s p =
     (case resolve dep p of
        None \<Rightarrow> Unrouted
      | Some Root_route \<Rightarrow> Handled (Some (root fs))
      | Some Serve_spa_route \<Rightarrow>
          (case full_path_of p of
             None \<Rightarrow> Unrouted
           | Some full_path \<Rightarrow> Handled (Some (serve_spa fs full_path)))
      | Some Health_route \<Rightarrow>
          Handled (health_check (capabilities_of dep) (settings_of dep) ck pr s)
      | Some Health_simple_route \<Rightarrow>
          Handled (Some (simple_health_check (settings_of dep) ck))
      | Some Metrics_route \<Rightarrow> Handled (Some (metrics (settings_of dep) ck ps s))
      | Some r \<Rightarrow> Delegated r)"

subsection \<open>Notions used to state the properties\<close>

text \<open>The keys of a returned JSON body; no keys when the handler did not return a dict.\<close>

definition response_keys :: "handler_result \<Rightarrow> string list" where
  "response_keys r = (case r of Returned body \<Rightarrow> keys body | _ \<Rightarrow> [])"

text \<open>
  The order the specification calls canonical, outermost first: error boundary,
  security enhancement, multi-tenant resolution, admission control.
\<close>

definition canonical_order :: "middleware list" where
  "canonical_order =
     [ErrorHandlingMiddleware, SecurityEnhancementMiddleware, MultiTenantMiddleware,
      Rate_limit_middleware]"

text \<open>The body that the \<open>except\<close> clause of \<open>metrics\<close> returns.\<close>

definition error_payload :: "string \<Rightarrow> string \<Rightarrow> pyval" where
  "error_payload message timestamp =
     PDict [(''error'', PStr ''metrics_collection_failed''),
            (''message'', PStr message),
            (''timestamp'', PStr timestamp)]"

text \<open>The body that the outer \<open>except\<close> clause of \<open>health_check\<close> returns.\<close>

definition unhealthy_payload :: "string \<Rightarrow> string \<Rightarrow> pyval" where
  "unhealthy_payload timestamp err =
     PDict [(''status'', PStr ''unhealthy''),
            (''timestamp'', PStr timestamp),
            (''error'', PStr err)]"

text \<open>The subsystem initializers, and the shutdown hooks.\<close>

definition is_initializer :: "call \<Rightarrow> bool" where
  "is_initializer c =
     (c = Tracing_initialize \<or> c = Init_database \<or> c = Initialize_all_services)"

definition is_shutdown_hook :: "call \<Rightarrow> bool" where
  "is_shutdown_hook c = (c = Shutdown_all_services \<or> c = Db_cleanup)"

text \<open>
  A piece of code is quiet for a set of calls when it makes none of them, and it
  grows the log when it keeps every record written before it.
\<close>

definition quiet :: "(call \<Rightarrow> bool) \<Rightarrow> prog \<Rightarrow> bool" where
  "quiet P p = (\<forall>s. filter P (trace (snd (p s))) = filter P (trace s))"

definition grows :: "prog \<Rightarrow> bool" where
  "grows p = (\<forall>s. set (log s) \<subseteq> set (log (snd (p s))))"

text \<open>Inputs at which the properties are evaluated.\<close>

definition production :: settings where
  "production =
     \<lparr>ENVIRONMENT = Some ''production'', RAILWAY_ENVIRONMENT = Some PNone,
      ENABLE_TRACING = Some (PBool True), DEBUG = False\<rparr>"

definition unconfigured :: settings where
  "unconfigured =
     \<lparr>ENVIRONMENT = None, RAILWAY_ENVIRONMENT = None, ENABLE_TRACING = None, DEBUG = True\<rparr>"

definition noon :: clock where
  "noon =
     \<lparr>time_time = 100, utcnow_iso = ''2024-01-01T12:00:00'',
      utcnow_iso_except = ''2024-01-01T12:00:01''\<rparr>"

definition everything :: capabilities where
  "everything =
     \<lparr>init_database_available = True, TRACING_AVAILABLE = True, ENTERPRISE_AVAILABLE = True\<rparr>"

definition basic_mode :: capabilities where
  "basic_mode =
     \<lparr>init_database_available = True, TRACING_AVAILABLE = True, ENTERPRISE_AVAILABLE = False\<rparr>"

definition fresh :: state where
  "fresh = \<lparr>start_time = None, trace = [], log = []\<rparr>"

definition running :: state where
  "running = \<lparr>start_time = Some 40, trace = [], log = []\<rparr>"

definition all_succeed :: outcomes where
  "all_succeed c = None"

definition only_fails :: "call \<Rightarrow> exn \<Rightarrow> outcomes" where
  "only_fails c e c' = (if c' = c then Some e else None)"

definition all_fail :: outcomes where
  "all_fail c = Some (PyExc ''RuntimeError'' ''boom'')"

definition healthy_host :: psutil where
  "healthy_host =
     \<lparr>cpu_percent = Inr 12.5,
      virtual_memory = Inr \<lparr>mem_total = 8000, mem_available = 4000, mem_percent = 50\<rparr>,
      disk_usage = Inr \<lparr>disk_total = 1000, disk_used = 250\<rparr>,
      Process = None,
      memory_info = Inr \<lparr>rss = 100, vms = 200\<rparr>,
      process_cpu_percent = Inr 1.5,
      num_threads = Inr 4\<rparr>"

definition healthy_probes :: probes where
  "healthy_probes =
     \<lparr>import_db_manager = None,
      check_connection = Returns (PBool True),
      health_check_all_services =
        Returns [(''services'', PDict [(''cache'', PStr ''healthy'')])]\<rparr>"

text \<open>
  A deployment with every optional subsystem, the production settings, no \<open>./static\<close>
  directory, and included routers that serve \<open>/api/v1/health\<close>.
\<close>

definition site :: deployment where
  "site =
     \<lparr>capabilities_of = everything, settings_of = production, static_dir_exists = False,
      included_paths = (\<lambda>p. p = ''/api/v1/health'')\<rparr>"

definition no_frontend :: filesystem where
  "no_frontend f = False"

definition frontend_built :: filesystem where
  "frontend_built f = True"

section \<open>Auxiliary facts\<close>

subsection \<open>Strings and middleware stacks\<close>

lemma startswith_prefix: "startswith s p \<longleftrightarrow> prefix p s"
  unfolding startswith_def prefix_def
  by (metis append_eq_conv_conj append_take_drop_id)

lemma layers_foldl: "layers (foldl (\<lambda>app m. Wrap m app) app ms) = rev ms @ layers app"
  by (induction ms arbitrary: app) simp_all

subsection \<open>Sequencing and exception handling\<close>

lemmas prog_defs = invoke_def logger_def raise_def seq_def try_except_def

lemma block_Nil: "block [] s = (None, s)"
  by simp

lemma block_step: "fst (p s) = None \<Longrightarrow> block (p # ps) s = block ps (snd (p s))"
  by (cases "p s") (simp add: seq_def)

lemma block_raise: "fst (p s) = Some e \<Longrightarrow> block (p # ps) s = (Some e, snd (p s))"
  by (cases "p s") (simp add: seq_def)

lemma fst_logger: "fst (logger l m s) = None"
  by (simp add: logger_def)

lemma fst_invoke: "fst (invoke out c s) = out c"
  by (simp add: invoke_def)

lemma fst_try_except_logger: "fst (try_except p (\<lambda>e. logger l (f e)) s) = None"
  by (simp add: try_except_def logger_def split: prod.splits option.splits)

lemma trace_logger: "trace (snd (logger l m s)) = trace s"
  by (simp add: logger_def)

lemma trace_invoke: "trace (snd (invoke out c s)) = trace s @ [c]"
  by (simp add: invoke_def)

subsection \<open>Code that makes none of a set of calls\<close>

lemma quiet_logger: "quiet P (logger l m)"
  by (simp add: quiet_def logger_def)

lemma quiet_invoke: "\<not> P c \<Longrightarrow> quiet P (invoke out c)"
  by (simp add: quiet_def invoke_def)

lemma quiet_trace: "quiet P p \<Longrightarrow> filter P (trace (snd (p s))) = filter P (trace s)"
  by (simp add: quiet_def)

lemma quiet_block: "(\<forall>p \<in> set ps. quiet P p) \<Longrightarrow> quiet P (block ps)"
proof (induction ps)
  case Nil
  show ?case by (simp add: quiet_def)
next
  case (Cons p ps)
  then have p: "quiet P p" and ps: "quiet P (block ps)" by simp_all
  show ?case
    unfolding quiet_def
  proof
    fix s
    show "filter P (trace (snd (block (p # ps) s))) = filter P (trace s)"
    proof (cases "p s")
      case (Pair r s')
      with p have "filter P (trace s') = filter P (trace s)"
        by (metis quiet_def snd_conv)
      with ps Pair show ?thesis
        by (cases r) (simp_all add: seq_def quiet_def)
    qed
  qed
qed

text \<open>
  A guarded section \<open>try: c(); ...  except Exception as e: logger.error(...)\<close> whose
  remaining statements make no call of interest: \<open>c\<close> is attempted, whatever it does.
\<close>

lemma trace_guarded:
  assumes "\<forall>p \<in> set rest. quiet P p"
  shows "filter P (trace (snd (try_except (block (invoke out c # rest)) (\<lambda>e. logger l (f e)) s)))
       = filter P (trace s) @ (if P c then [c] else [])"
proof -
  let ?s' = "s\<lparr>trace := trace s @ [c]\<rparr>"
  have q: "filter P (trace (snd (block rest ?s'))) = filter P (trace ?s')"
    using quiet_block [OF assms] by (simp add: quiet_def)
  show ?thesis
  proof (cases "out c")
    case None
    then have "block (invoke out c # rest) s = block rest ?s'"
      by (simp add: seq_def invoke_def)
    then show ?thesis using q
      by (cases "block rest ?s'") (auto simp: try_except_def logger_def split: option.splits)
  next
    case (Some e)
    then have "block (invoke out c # rest) s = (Some e, ?s')"
      by (simp add: seq_def invoke_def)
    then show ?thesis
      by (simp add: try_except_def logger_def)
  qed
qed

text \<open>The same with two calls in the guarded section: the second needs the first.\<close>

lemma trace_guarded2:
  "filter P (trace (snd (try_except (block [invoke out c1, invoke out c2, logger l m])
                            (\<lambda>e. logger l' (f e)) s)))
   = filter P (trace s) @ (if P c1 then [c1] else [])
     @ (if out c1 = None \<and> P c2 then [c2] else [])"
  by (simp add: prog_defs split: option.splits)

lemmas step_simps = block_Nil block_step fst_logger fst_try_except_logger trace_guarded
  trace_logger quiet_logger quiet_invoke

subsection \<open>Code that keeps the log\<close>

lemma grows_logger: "grows (logger l m)"
  by (auto simp: grows_def logger_def)

lemma grows_invoke: "grows (invoke out c)"
  by (simp add: grows_def invoke_def)

lemma grows_block: "(\<forall>p \<in> set ps. grows p) \<Longrightarrow> grows (block ps)"
proof (induction ps)
  case Nil
  show ?case by (simp add: grows_def)
next
  case (Cons p ps)
  then have p: "grows p" and ps: "grows (block ps)" by simp_all
  show ?case
    unfolding grows_def
  proof
    fix s
    show "set (log s) \<subseteq> set (log (snd (block (p # ps) s)))"
    proof (cases "p s")
      case (Pair r s')
      with p have "set (log s) \<subseteq> set (log s')"
        by (metis grows_def snd_conv)
      moreover from ps have "set (log s') \<subseteq> set (log (snd (block ps s')))"
        by (simp add: grows_def)
      ultimately show ?thesis using Pair
        by (cases r) (auto simp: seq_def)
    qed
  qed
qed

lemma grows_try_except: "grows p \<Longrightarrow> grows (try_except p (\<lambda>e. logger l (f e)))"
  unfolding grows_def
proof
  fix s
  assume g: "\<forall>s. set (log s) \<subseteq> set (log (snd (p s)))"
  show "set (log s) \<subseteq> set (log (snd (try_except p (\<lambda>e. logger l (f e)) s)))"
  proof (cases "p s")
    case (Pair r s')
    with g have "set (log s) \<subseteq> set (log s')" by (metis snd_conv)
    with Pair show ?thesis
      by (cases r) (auto simp: try_except_def logger_def)
  qed
qed

lemma grows_if: "grows p \<Longrightarrow> grows q \<Longrightarrow> grows (if b then p else q)"
  by simp

lemma grows_guarded:
  "(\<forall>p \<in> set ps. grows p) \<Longrightarrow> grows (try_except (block ps) (\<lambda>e. logger l (f e)))"
  by (rule grows_try_except) (rule grows_block)

text \<open>A record written by a statement of a block is still there at the end.\<close>

lemma log_block_later:
  assumes "fst (p s) = None" and "x \<in> set (log (snd (block ps (snd (p s)))))"
  shows "x \<in> set (log (snd (block (p # ps) s)))"
  using assms by (simp add: block_step del: block.simps(2))

lemma log_block_here:
  assumes "fst (p s) = None" and "x \<in> set (log (snd (p s)))" and "\<forall>q \<in> set ps. grows q"
  shows "x \<in> set (log (snd (block (p # ps) s)))"
proof -
  from assms(3) have "grows (block ps)" by (rule grows_block)
  with assms(2) have "x \<in> set (log (snd (block ps (snd (p s)))))"
    by (auto simp: grows_def)
  with assms(1) show ?thesis by (rule log_block_later)
qed

text \<open>A guarded section records the failure of its first call.\<close>

lemma log_guarded_failure:
  "out c = Some e \<Longrightarrow>
   (l, f e) \<in> set (log (snd (try_except (block (invoke out c # rest)) (\<lambda>e. logger l (f e)) s)))"
  by (simp add: try_except_def seq_def invoke_def logger_def)

text \<open>The same facts for a guarded section behind an availability check.\<close>

lemma grows_stage:
  "(\<forall>p \<in> set ps. grows p) \<Longrightarrow>
   grows (if b then try_except (block ps) (\<lambda>e. logger l (f e)) else logger l' m)"
  by (simp add: grows_guarded grows_logger)

lemma fst_stage:
  "fst ((if b then try_except p (\<lambda>e. logger l (f e)) else logger l' m) s) = None"
  by (simp add: fst_try_except_logger fst_logger)

lemma log_stage_failure:
  "b \<Longrightarrow> out c = Some e \<Longrightarrow>
   (l, f e) \<in> set (log (snd ((if b then try_except (block (invoke out c # rest))
                                   (\<lambda>e. logger l (f e)) else q) s)))"
  by (simp add: log_guarded_failure)

lemma log_guarded2_failure:
  "out c1 = Some e \<or> out c1 = None \<and> out c2 = Some e \<Longrightarrow>
   (l', f e) \<in> set (log (snd (try_except (block [invoke out c1, invoke out c2, logger l m])
                            (\<lambda>e. logger l' (f e)) s)))"
  by (auto simp: prog_defs)

subsection \<open>The lifecycle functions\<close>

lemma lifespan_startup_returns: "fst (lifespan_startup caps st ck out s) = None"
  unfolding lifespan_startup_def
  by (simp add: step_simps del: block.simps(2))

lemma lifespan_startup_trace:
  assumes "\<And>m. \<not> P (Import_module m)" "\<And>m. \<not> P (Create_stream m)"
    "\<not> P Observability_initialize" "\<not> P Create_default_experiments"
  shows "filter P (trace (snd (lifespan_startup caps st ck out s)))
   = filter P (trace s)
     @ (if TRACING_AVAILABLE caps \<and> enable_tracing st \<and> P Tracing_initialize
        then [Tracing_initialize] else [])
     @ (if init_database_available caps \<and> P Init_database then [Init_database] else [])
     @ (if ENTERPRISE_AVAILABLE caps \<and> P Initialize_all_services
        then [Initialize_all_services] else [])"
  unfolding lifespan_startup_def using assms
  by (simp add: step_simps del: block.simps(2))

lemma lifespan_shutdown_returns: "fst (lifespan_shutdown caps out s) = None"
  unfolding lifespan_shutdown_def
  by (simp add: step_simps del: block.simps(2))

lemma lifespan_shutdown_trace:
  "filter P (trace (snd (lifespan_shutdown caps out s)))
   = filter P (trace s)
     @ (if ENTERPRISE_AVAILABLE caps \<and> P Shutdown_all_services
        then [Shutdown_all_services] else [])
     @ (if P (Import_module ''app.core.database'')
        then [Import_module ''app.core.database''] else [])
     @ (if out (Import_module ''app.core.database'') = None \<and> P Db_cleanup
        then [Db_cleanup] else [])"
  unfolding lifespan_shutdown_def
  by (simp add: step_simps trace_guarded2 del: block.simps(2))

text \<open>With a \<open>lifespan\<close> argument the registered hooks are not run.\<close>

lemma app_startup_lifespan: "app_startup caps st ck out = lifespan_startup caps st ck out"
  by (simp add: app_startup_def router_startup_def)

lemma app_shutdown_lifespan: "app_shutdown caps out = lifespan_shutdown caps out"
  by (simp add: app_shutdown_def router_shutdown_def)

subsection \<open>The \<open>try\<close> body of \<open>metrics\<close>\<close>

lemma metrics_Inl:
  "metrics_data st ck ps s = Inl e \<Longrightarrow>
   metrics st ck ps s = Returned (error_payload (str_exn e) (utcnow_iso_except ck))"
  by (simp add: metrics_def error_payload_def)

lemma metrics_data_read_failure:
  assumes "isl (cpu_percent ps) \<or> isl (virtual_memory ps) \<or> isl (disk_usage ps)
           \<or> Process ps \<noteq> None \<or> isl (memory_info ps)
           \<or> isl (process_cpu_percent ps) \<or> isl (num_threads ps)"
  shows "\<exists>e. metrics_data st ck ps s = Inl e"
  using assms unfolding metrics_data_def
  by (auto simp: bind_def isl_def split: sum.splits option.splits)

lemma metrics_data_no_start_time:
  "start_time s = None \<Longrightarrow> \<exists>e. metrics_data st ck ps s = Inl e"
  unfolding metrics_data_def
  by (auto simp: bind_def get_start_time_def split: sum.splits option.splits if_splits)

lemma metrics_data_only_start_time:
  assumes "start_time s = None"
    and "cpu_percent ps = Inr cpu" "virtual_memory ps = Inr memory" "disk_usage ps = Inr disk"
    and "Process ps = None" "memory_info ps = Inr process_memory" "disk_total disk \<noteq> 0"
    and "process_cpu_percent ps = Inr pcpu" "num_threads ps = Inr threads"
  shows "metrics_data st ck ps s = Inl (attribute_error ''State'' ''start_time'')"
  using assms unfolding metrics_data_def
  by (simp add: bind_def get_start_time_def disk_percent_def)

subsection \<open>What the lifespan writes to the log\<close>

lemma lifespan_startup_logs_tracing:
  assumes a: "TRACING_AVAILABLE caps \<and> enable_tracing st \<and> out Tracing_initialize = Some e"
  shows "(ERROR, ''Tracing initialization failed: '' @ str_exn e)
          \<in> set (log (snd (lifespan_startup caps st ck out s)))"
  unfolding lifespan_startup_def
  apply (rule log_block_later, rule fst_logger)
  apply (rule log_block_later, simp)
  apply (rule log_block_here)
    apply (rule fst_stage)
   apply (rule log_stage_failure [where f = "\<lambda>e. ''Tracing initialization failed: '' @ str_exn e"])
    apply (simp add: a)
   apply (simp add: a)
  apply (simp add: grows_stage grows_invoke grows_logger del: block.simps)
  done

lemma lifespan_startup_logs_database:
  assumes a: "init_database_available caps \<and> out Init_database = Some e"
  shows "(ERROR, ''Database initialization failed: '' @ str_exn e)
          \<in> set (log (snd (lifespan_startup caps st ck out s)))"
  unfolding lifespan_startup_def
  apply (rule log_block_later, rule fst_logger)
  apply (rule log_block_later, simp)
  apply (rule log_block_later, rule fst_stage)
  apply (rule log_block_here)
    apply (rule fst_stage)
   apply (rule log_stage_failure [where f = "\<lambda>e. ''Database initialization failed: '' @ str_exn e"])
    apply (simp add: a)
   apply (simp add: a)
  apply (simp add: grows_stage grows_invoke grows_logger del: block.simps)
  done

lemma lifespan_startup_logs_enterprise:
  assumes a: "ENTERPRISE_AVAILABLE caps \<and> out Initialize_all_services = Some e"
  shows "(ERROR, ''Enterprise service initialization failed: '' @ str_exn e)
          \<in> set (log (snd (lifespan_startup caps st ck out s)))"
  unfolding lifespan_startup_def
  apply (rule log_block_later, rule fst_logger)
  apply (rule log_block_later, simp)
  apply (rule log_block_later, rule fst_stage)
  apply (rule log_block_later, rule fst_stage)
  apply (rule log_block_here)
    apply (rule fst_stage)
   apply (rule log_stage_failure
      [where f = "\<lambda>e. ''Enterprise service initialization failed: '' @ str_exn e"])
    apply (simp add: a)
   apply (simp add: a)
  apply simp
  done

lemma lifespan_shutdown_logs_enterprise:
  assumes a: "ENTERPRISE_AVAILABLE caps \<and> out Shutdown_all_services = Some e"
  shows "(ERROR, ''Enterprise service shutdown failed: '' @ str_exn e)
          \<in> set (log (snd (lifespan_shutdown caps out s)))"
  unfolding lifespan_shutdown_def
  apply (rule log_block_later, rule fst_logger)
  apply (rule log_block_here)
    apply (simp add: a fst_try_except_logger)
   apply (rule log_stage_failure
      [where f = "\<lambda>e. ''Enterprise service shutdown failed: '' @ str_exn e"])
    apply (simp add: a)
   apply (simp add: a)
  apply (simp add: grows_guarded grows_invoke grows_logger del: block.simps)
  done

lemma lifespan_shutdown_logs_database:
  assumes a: "out (Import_module ''app.core.database'') = Some e
      \<or> out (Import_module ''app.core.database'') = None \<and> out Db_cleanup = Some e"
  shows "(ERROR, ''Database cleanup failed: '' @ str_exn e)
          \<in> set (log (snd (lifespan_shutdown caps out s)))"
  unfolding lifespan_shutdown_def
  apply (rule log_block_later, rule fst_logger)
  apply (rule log_block_later)
   apply (simp add: fst_try_except_logger)
  apply (rule log_block_here)
    apply (rule fst_try_except_logger)
   apply (rule log_guarded2_failure [where f = "\<lambda>e. ''Database cleanup failed: '' @ str_exn e"])
   apply (rule a)
  apply simp
  done

subsection \<open>Routes\<close>

text \<open>Every path that a literal route matches is matched by the catch-all route.\<close>

lemma catch_all_health: "regex_literal ''/health'' p \<Longrightarrow> full_path_of p = Some ''health''"
  by (auto simp: regex_literal_def path_convertor_def newline_def)

lemma catch_all_health_simple:
  "regex_literal ''/health/simple'' p \<Longrightarrow> full_path_of p = Some ''health/simple''"
  by (auto simp: regex_literal_def path_convertor_def newline_def)

lemma catch_all_metrics: "regex_literal ''/metrics'' p \<Longrightarrow> full_path_of p = Some ''metrics''"
  by (auto simp: regex_literal_def path_convertor_def newline_def)

text \<open>No route registered before the catch-all matches the three paths.\<close>

lemma resolve_health: "resolve dep ''/health'' = Some Serve_spa_route"
  by (simp add: resolve_def routes_def regex_literal_def startswith_def path_convertor_def
      newline_def)

lemma resolve_health_simple: "resolve dep ''/health/simple'' = Some Serve_spa_route"
  by (simp add: resolve_def routes_def regex_literal_def startswith_def path_convertor_def
      newline_def)

lemma resolve_metrics: "resolve dep ''/metrics'' = Some Serve_spa_route"
  by (simp add: resolve_def routes_def regex_literal_def startswith_def path_convertor_def
      newline_def)

lemma find_not_later:
  "find P (xs @ x # ys) = Some y \<Longrightarrow> P x \<Longrightarrow> y \<in> set xs \<or> y = x"
  by (induction xs) (auto split: if_splits)

lemma resolve_before_catch_all:
  assumes "resolve dep p = Some r" and "full_path_of p \<noteq> None"
  shows "r \<noteq> Health_route \<and> r \<noteq> Health_simple_route \<and> r \<noteq> Metrics_route"
proof -
  let ?before = "[Openapi_route]
     @ (if DEBUG (settings_of dep)
        then [Docs_route, Docs_oauth2_redirect_route, Redoc_route] else [])
     @ [Included_route]
     @ (if static_dir_exists dep then [Static_mount] else [])
     @ [Root_route]"
  have "routes dep = ?before @ Serve_spa_route # [Health_route, Health_simple_route, Metrics_route]"
    by (simp add: routes_def)
  with assms have "r \<in> set ?before \<or> r = Serve_spa_route"
    using find_not_later [of "\<lambda>r. route_matches dep r p" ?before Serve_spa_route _ r]
    by (simp add: resolve_def)
  then show ?thesis by (auto split: if_splits)
qed

section \<open>The claims\<close>

subsection \<open>C1: order of the middleware pipeline\<close>

text \<open>
  Claim C1 says that the assembled pipeline wraps a request in the canonical order,
  outermost first: error boundary, security enhancement, multi-tenant resolution,
  admission control, route dispatch. The module registers the four stages in that
  order, and each registration becomes the new outermost layer, so the pipeline runs
  them in the opposite order. In production the four stages, as they are met by a
  request, are not the canonical list.
\<close>

theorem pipeline_order_counterexample:
  "filter (\<lambda>m. m \<in> set canonical_order) (layers (build_middleware_stack production))
   \<noteq> canonical_order"
  by (simp add: canonical_order_def build_middleware_stack_def user_middleware_def
      registrations_def add_middleware_def layers_foldl production_def)

text \<open>
  Claim C1, as amended: for every configuration the layers of the assembled pipeline
  are, outermost first, the server error middleware of the framework, admission control
  (rate limiting), multi-tenant resolution, security enhancement, the error boundary,
  the enterprise middleware, the trusted-host middleware unless \<open>DEBUG\<close> is set, CORS,
  the exception middleware of the framework, and then route dispatch; the four stages
  of the canonical order occur in the reverse of that order.
\<close>

theorem pipeline_order:
  "layers (build_middleware_stack st) =
     [ServerErrorMiddleware, Rate_limit_middleware, MultiTenantMiddleware,
      SecurityEnhancementMiddleware, ErrorHandlingMiddleware, EnterpriseMiddleware]
     @ (if DEBUG st then [] else [TrustedHostMiddleware])
     @ [CORSMiddleware, ExceptionMiddleware]
   \<and> filter (\<lambda>m. m \<in> set canonical_order) (layers (build_middleware_stack st))
       = rev canonical_order"
  by (simp add: canonical_order_def build_middleware_stack_def user_middleware_def
      registrations_def add_middleware_def layers_foldl)

text \<open>The amended order at the production settings and with \<open>DEBUG\<close> set.\<close>

theorem pipeline_order_witness:
  "layers (build_middleware_stack production) =
     [ServerErrorMiddleware, Rate_limit_middleware, MultiTenantMiddleware,
      SecurityEnhancementMiddleware, ErrorHandlingMiddleware, EnterpriseMiddleware,
      TrustedHostMiddleware, CORSMiddleware, ExceptionMiddleware]
   \<and> layers (build_middleware_stack unconfigured) =
     [ServerErrorMiddleware, Rate_limit_middleware, MultiTenantMiddleware,
      SecurityEnhancementMiddleware, ErrorHandlingMiddleware, EnterpriseMiddleware,
      CORSMiddleware, ExceptionMiddleware]"
  using pipeline_order [of production] pipeline_order [of unconfigured]
  by (simp add: production_def unconfigured_def)

subsection \<open>C2: a failing resource read in \<open>/metrics\<close>\<close>

text \<open>
  Claim C2 says that when one resource read fails, a request to \<open>GET /metrics\<close> is
  still answered with a 200 that holds the full snapshot, with an error marker on the
  affected field only. Two facts stand against it. A request \<open>GET /metrics\<close> is
  matched by the catch-all route, registered before \<open>/metrics\<close>, and is answered by
  \<open>serve_spa\<close>: on a deployment without a frontend that is a 404. And the handler
  \<open>metrics\<close> itself, run with every read succeeding except \<open>psutil.disk_usage\<close>,
  returns the three-field error body: the CPU and memory figures that were read are
  not in it.
\<close>

theorem metrics_read_failure_counterexample:
  "handle_get site noon no_frontend healthy_probes
     (healthy_host\<lparr>disk_usage := Inl (PyExc ''FileNotFoundError'' ''no such mount'')\<rparr>)
     running ''/metrics''
   = Handled (Some (RaisedHTTP 404 ''Frontend not available''))
   \<and> metrics production noon
     (healthy_host\<lparr>disk_usage := Inl (PyExc ''FileNotFoundError'' ''no such mount'')\<rparr>)
     running
   = Returned (PDict
       [(''error'', PStr ''metrics_collection_failed''),
        (''message'', PStr ''no such mount''),
        (''timestamp'', PStr ''2024-01-01T12:00:01'')])"
proof
  show "handle_get site noon no_frontend healthy_probes
     (healthy_host\<lparr>disk_usage := Inl (PyExc ''FileNotFoundError'' ''no such mount'')\<rparr>)
     running ''/metrics''
   = Handled (Some (RaisedHTTP 404 ''Frontend not available''))"
    by (simp add: handle_get_def resolve_metrics path_convertor_def newline_def serve_spa_def
        startswith_def no_frontend_def)
next
  show "metrics production noon
     (healthy_host\<lparr>disk_usage := Inl (PyExc ''FileNotFoundError'' ''no such mount'')\<rparr>)
     running
   = Returned (PDict
       [(''error'', PStr ''metrics_collection_failed''),
        (''message'', PStr ''no such mount''),
        (''timestamp'', PStr ''2024-01-01T12:00:01'')])"
    by (simp add: metrics_def metrics_data_def bind_def healthy_host_def noon_def)
qed

text \<open>
  Claim C2, as amended: whenever the handler \<open>metrics\<close> runs and some resource read
  (CPU, memory, disk, or process statistics) fails, the handler returns a body and does
  not raise, and that body is the error payload
  \<open>{error: "metrics_collection_failed", message, timestamp}\<close>, which replaces the whole
  snapshot. This is a statement about the handler; which requests reach it is left
  open.
\<close>

theorem metrics_read_failure:
  assumes "isl (cpu_percent ps) \<or> isl (virtual_memory ps) \<or> isl (disk_usage ps)
           \<or> Process ps \<noteq> None \<or> isl (memory_info ps)
           \<or> isl (process_cpu_percent ps) \<or> isl (num_threads ps)"
  shows "\<exists>message. metrics st ck ps s = Returned (error_payload message (utcnow_iso_except ck))"
proof -
  from assms obtain e where "metrics_data st ck ps s = Inl e"
    using metrics_data_read_failure by blast
  then have "metrics st ck ps s = Returned (error_payload (str_exn e) (utcnow_iso_except ck))"
    by (rule metrics_Inl)
  then show ?thesis ..
qed

text \<open>The amended claim where reading the CPU load is refused.\<close>

theorem metrics_read_failure_witness:
  "isl (cpu_percent (healthy_host\<lparr>cpu_percent := Inl (PyExc ''PermissionError'' ''denied'')\<rparr>))
   \<and> (\<exists>message.
        metrics production noon
          (healthy_host\<lparr>cpu_percent := Inl (PyExc ''PermissionError'' ''denied'')\<rparr>) running
        = Returned (error_payload message ''2024-01-01T12:00:01''))"
  using metrics_read_failure
    [of "healthy_host\<lparr>cpu_percent := Inl (PyExc ''PermissionError'' ''denied'')\<rparr>"
        production noon running]
  by (simp add: noon_def)

subsection \<open>C3: shutdown hooks\<close>

text \<open>
  Claim C3: during shutdown every shutdown hook is attempted exactly once inside a
  failure boundary, in the reverse of the order of initialization; an error raised by
  one hook is recorded and never prevents the remaining hooks, the database cleanup
  included, from being attempted. The shutdown of the application is the part of
  \<open>lifespan\<close> after its \<open>yield\<close>. It always returns; whatever each call does, it
  calls the shutdown of the enterprise services (when they are available), then
  imports \<open>db_manager\<close>, then calls its cleanup (when the import succeeds), and
  nothing else: the database was initialized before the enterprise services and is
  cleaned up after them. Each failure is written to the log at level \<open>ERROR\<close>.
\<close>

theorem shutdown_contains_failures:
  "fst (app_shutdown caps out s) = None
   \<and> trace (snd (app_shutdown caps out s))
     = trace s
       @ (if ENTERPRISE_AVAILABLE caps then [Shutdown_all_services] else [])
       @ [Import_module ''app.core.database'']
       @ (if out (Import_module ''app.core.database'') = None then [Db_cleanup] else [])
   \<and> (ENTERPRISE_AVAILABLE caps \<and> out Shutdown_all_services = Some e1 \<longrightarrow>
        (ERROR, ''Enterprise service shutdown failed: '' @ str_exn e1)
          \<in> set (log (snd (app_shutdown caps out s))))
   \<and> (out (Import_module ''app.core.database'') = Some e2 \<longrightarrow>
        (ERROR, ''Database cleanup failed: '' @ str_exn e2)
          \<in> set (log (snd (app_shutdown caps out s))))
   \<and> (out (Import_module ''app.core.database'') = None \<and> out Db_cleanup = Some e3 \<longrightarrow>
        (ERROR, ''Database cleanup failed: '' @ str_exn e3)
          \<in> set (log (snd (app_shutdown caps out s))))"
proof (intro conjI impI)
  show "fst (app_shutdown caps out s) = None"
    by (simp add: app_shutdown_lifespan lifespan_shutdown_returns)
next
  show "trace (snd (app_shutdown caps out s))
     = trace s
       @ (if ENTERPRISE_AVAILABLE caps then [Shutdown_all_services] else [])
       @ [Import_module ''app.core.database'']
       @ (if out (Import_module ''app.core.database'') = None then [Db_cleanup] else [])"
    using lifespan_shutdown_trace [of "\<lambda>c. True" caps out s]
    by (simp add: app_shutdown_lifespan)
next
  assume "ENTERPRISE_AVAILABLE caps \<and> out Shutdown_all_services = Some e1"
  then show "(ERROR, ''Enterprise service shutdown failed: '' @ str_exn e1)
          \<in> set (log (snd (app_shutdown caps out s)))"
    unfolding app_shutdown_lifespan by (rule lifespan_shutdown_logs_enterprise)
next
  assume "out (Import_module ''app.core.database'') = Some e2"
  then show "(ERROR, ''Database cleanup failed: '' @ str_exn e2)
          \<in> set (log (snd (app_shutdown caps out s)))"
    unfolding app_shutdown_lifespan by (intro lifespan_shutdown_logs_database disjI1)
next
  assume "out (Import_module ''app.core.database'') = None \<and> out Db_cleanup = Some e3"
  then show "(ERROR, ''Database cleanup failed: '' @ str_exn e3)
          \<in> set (log (snd (app_shutdown caps out s)))"
    unfolding app_shutdown_lifespan by (intro lifespan_shutdown_logs_database disjI2)
qed

text \<open>
  The claim when the enterprise shutdown raises, when the cleanup raises, and when
  \<open>db_manager\<close> cannot be imported.
\<close>

theorem shutdown_contains_failures_witness:
  "fst (app_shutdown everything
          (only_fails Shutdown_all_services (PyExc ''RuntimeError'' ''pool closed'')) running) = None
   \<and> trace (snd (app_shutdown everything
          (only_fails Shutdown_all_services (PyExc ''RuntimeError'' ''pool closed'')) running))
     = [Shutdown_all_services, Import_module ''app.core.database'', Db_cleanup]
   \<and> (ERROR, ''Enterprise service shutdown failed: pool closed'')
        \<in> set (log (snd (app_shutdown everything
          (only_fails Shutdown_all_services (PyExc ''RuntimeError'' ''pool closed'')) running)))
   \<and> (ERROR, ''Database cleanup failed: busy'')
        \<in> set (log (snd (app_shutdown everything
          (only_fails Db_cleanup (PyExc ''RuntimeError'' ''busy'')) running)))
   \<and> (ERROR, ''Database cleanup failed: no module'')
        \<in> set (log (snd (app_shutdown everything
          (only_fails (Import_module ''app.core.database'') (PyExc ''ImportError'' ''no module''))
          running)))"
  using shutdown_contains_failures [of everything
      "only_fails Shutdown_all_services (PyExc ''RuntimeError'' ''pool closed'')" running
      "PyExc ''RuntimeError'' ''pool closed''"]
    shutdown_contains_failures [of everything
      "only_fails Db_cleanup (PyExc ''RuntimeError'' ''busy'')" running
      _ _ "PyExc ''RuntimeError'' ''busy''"]
    shutdown_contains_failures [of everything
      "only_fails (Import_module ''app.core.database'') (PyExc ''ImportError'' ''no module'')"
      running _ "PyExc ''ImportError'' ''no module''"]
  by (simp add: everything_def only_fails_def running_def)

subsection \<open>C4: startup failures\<close>

text \<open>
  Claim C4: during startup a failure raised by any initializer (tracing, database,
  enterprise services) is caught in the failure boundary of that subsystem, the
  startup sequence goes on to every remaining subsystem, and it completes, for every
  combination of failing initializers. The startup of the application is the part of
  \<open>lifespan\<close> before its \<open>yield\<close>. Whatever each call does, it returns without an
  exception; each available initializer (tracing when it is enabled, the database,
  the enterprise services) is attempted exactly once, in this order; and the failure
  of an initializer is written to the log at level \<open>ERROR\<close>.
\<close>

theorem startup_contains_failures:
  "fst (app_startup caps st ck out s) = None
   \<and> filter is_initializer (trace (snd (app_startup caps st ck out s)))
     = filter is_initializer (trace s)
       @ (if TRACING_AVAILABLE caps \<and> enable_tracing st then [Tracing_initialize] else [])
       @ (if init_database_available caps then [Init_database] else [])
       @ (if ENTERPRISE_AVAILABLE caps then [Initialize_all_services] else [])
   \<and> (TRACING_AVAILABLE caps \<and> enable_tracing st \<and> out Tracing_initialize = Some e1 \<longrightarrow>
        (ERROR, ''Tracing initialization failed: '' @ str_exn e1)
          \<in> set (log (snd (app_startup caps st ck out s))))
   \<and> (init_database_available caps \<and> out Init_database = Some e2 \<longrightarrow>
        (ERROR, ''Database initialization failed: '' @ str_exn e2)
          \<in> set (log (snd (app_startup caps st ck out s))))
   \<and> (ENTERPRISE_AVAILABLE caps \<and> out Initialize_all_services = Some e3 \<longrightarrow>
        (ERROR, ''Enterprise service initialization failed: '' @ str_exn e3)
          \<in> set (log (snd (app_startup caps st ck out s))))"
proof (intro conjI impI)
  show "fst (app_startup caps st ck out s) = None"
    by (simp add: app_startup_lifespan lifespan_startup_returns)
next
  show "filter is_initializer (trace (snd (app_startup caps st ck out s)))
     = filter is_initializer (trace s)
       @ (if TRACING_AVAILABLE caps \<and> enable_tracing st then [Tracing_initialize] else [])
       @ (if init_database_available caps then [Init_database] else [])
       @ (if ENTERPRISE_AVAILABLE caps then [Initialize_all_services] else [])"
    by (simp add: app_startup_lifespan lifespan_startup_trace is_initializer_def)
next
  assume "TRACING_AVAILABLE caps \<and> enable_tracing st \<and> out Tracing_initialize = Some e1"
  then show "(ERROR, ''Tracing initialization failed: '' @ str_exn e1)
          \<in> set (log (snd (app_startup caps st ck out s)))"
    unfolding app_startup_lifespan by (rule lifespan_startup_logs_tracing)
next
  assume "init_database_available caps \<and> out Init_database = Some e2"
  then show "(ERROR, ''Database initialization failed: '' @ str_exn e2)
          \<in> set (log (snd (app_startup caps st ck out s)))"
    unfolding app_startup_lifespan by (rule lifespan_startup_logs_database)
next
  assume "ENTERPRISE_AVAILABLE caps \<and> out Initialize_all_services = Some e3"
  then show "(ERROR, ''Enterprise service initialization failed: '' @ str_exn e3)
          \<in> set (log (snd (app_startup caps st ck out s)))"
    unfolding app_startup_lifespan by (rule lifespan_startup_logs_enterprise)
qed

text \<open>The claim when every call raises.\<close>

theorem startup_contains_failures_witness:
  "fst (app_startup everything production noon all_fail fresh) = None
   \<and> filter is_initializer (trace (snd (app_startup everything production noon all_fail fresh)))
     = [Tracing_initialize, Init_database, Initialize_all_services]
   \<and> (ERROR, ''Tracing initialization failed: boom'')
        \<in> set (log (snd (app_startup everything production noon all_fail fresh)))
   \<and> (ERROR, ''Database initialization failed: boom'')
        \<in> set (log (snd (app_startup everything production noon all_fail fresh)))
   \<and> (ERROR, ''Enterprise service initialization failed: boom'')
        \<in> set (log (snd (app_startup everything production noon all_fail fresh)))"
  using startup_contains_failures [of everything production noon all_fail fresh
      "PyExc ''RuntimeError'' ''boom''" "PyExc ''RuntimeError'' ''boom''"
      "PyExc ''RuntimeError'' ''boom''"]
  by (simp add: everything_def production_def enable_tracing_def all_fail_def fresh_def)

subsection \<open>C5: duplicate initialization\<close>

text \<open>
  Claim C5 says that the two trigger mechanisms re-run some of the same
  initialization, so that in a startup where both fire the database initializer and
  \<open>initialize_all_services\<close> are each invoked twice. The application is given its
  \<open>lifespan\<close>, so the \<open>startup\<close> hook does not fire: in the startup of a deployment
  with every subsystem available, each of the two is invoked once.
\<close>

theorem duplicate_initialization_counterexample:
  "count_list (trace (snd (app_startup everything production noon all_succeed fresh)))
     Init_database = 1
   \<and> count_list (trace (snd (app_startup everything production noon all_succeed fresh)))
     Initialize_all_services = 1"
  by (simp add: app_startup_lifespan count_list_eq_length_filter lifespan_startup_trace
      everything_def fresh_def)

text \<open>
  Claim C5, as amended: the module defines two lifecycle-trigger mechanisms, the
  lifespan context manager and the legacy \<open>on_event\<close> hooks, which contain some of the
  same initialization; the application is constructed with \<open>lifespan=lifespan\<close>, so
  only the lifespan fires: every startup is the startup part of \<open>lifespan\<close>, and in it
  the database initializer and \<open>initialize_all_services\<close> are each invoked exactly
  once when available, and not at all otherwise.
\<close>

theorem single_initialization:
  "app_startup caps st ck out s = lifespan_startup caps st ck out s
   \<and> count_list (trace (snd (app_startup caps st ck out s))) Init_database
     = count_list (trace s) Init_database + (if init_database_available caps then 1 else 0)
   \<and> count_list (trace (snd (app_startup caps st ck out s))) Initialize_all_services
     = count_list (trace s) Initialize_all_services
       + (if ENTERPRISE_AVAILABLE caps then 1 else 0)"
  by (simp add: app_startup_lifespan count_list_eq_length_filter lifespan_startup_trace)

text \<open>The amended claim when every call raises, and in basic mode.\<close>

theorem single_initialization_witness:
  "count_list (trace (snd (app_startup everything production noon all_fail fresh)))
     Init_database = 1
   \<and> count_list (trace (snd (app_startup everything production noon all_fail fresh)))
     Initialize_all_services = 1
   \<and> count_list (trace (snd (app_startup basic_mode production noon all_succeed fresh)))
     Initialize_all_services = 0"
  using single_initialization [of everything production noon all_fail fresh, THEN conjunct2]
    single_initialization [of basic_mode production noon all_succeed fresh, THEN conjunct2]
  by (simp add: everything_def basic_mode_def fresh_def)

subsection \<open>C6: \<open>/health\<close> never fails\<close>

text \<open>
  Claim C6 says that \<open>GET /health\<close> never fails and always answers with a health
  report. The description of the application names \<open>/health\<close> as its health check,
  but the catch-all route \<open>/{full_path:path}\<close> is registered before \<open>/health\<close> and
  matches it, so the request is answered by \<open>serve_spa\<close> and never by
  \<open>health_check\<close>: on a deployment without a frontend the answer is a 404, and with
  a frontend it is the entry document of the single-page application.
\<close>

theorem get_health_not_served:
  "handle_get site noon no_frontend healthy_probes healthy_host running ''/health''
   = Handled (Some (RaisedHTTP 404 ''Frontend not available''))
   \<and> handle_get site noon frontend_built healthy_probes healthy_host running ''/health''
   = Handled (Some (ReturnedFile ''static/index.html''))"
  by (simp add: handle_get_def resolve_health path_convertor_def newline_def serve_spa_def
      startswith_def no_frontend_def frontend_built_def index_file_def)

subsection \<open>C7: the single-page-application fallback\<close>

text \<open>
  Claim C7: for every request path, the fallback route answers 404 when the path has
  the prefix \<open>api/\<close>, \<open>docs\<close> or \<open>redoc\<close>; for every other path it answers with
  the entry document \<open>static/index.html\<close> when that file is present, and with 404
  when it is not.
\<close>

theorem serve_spa_fallback:
  "(prefix ''api/'' p \<or> prefix ''docs'' p \<or> prefix ''redoc'' p
      \<longrightarrow> serve_spa fs p = RaisedHTTP 404 ''Not found'')
   \<and> (\<not> (prefix ''api/'' p \<or> prefix ''docs'' p \<or> prefix ''redoc'' p)
        \<and> fs ''static/index.html''
      \<longrightarrow> serve_spa fs p = ReturnedFile ''static/index.html'')
   \<and> (\<not> (prefix ''api/'' p \<or> prefix ''docs'' p \<or> prefix ''redoc'' p)
        \<and> \<not> fs ''static/index.html''
      \<longrightarrow> serve_spa fs p = RaisedHTTP 404 ''Frontend not available'')"
  by (simp add: serve_spa_def index_file_def startswith_prefix)

text \<open>The claim at paths of each kind, with and without the entry document.\<close>

theorem serve_spa_fallback_witness:
  "serve_spa (\<lambda>f. True) ''api/v1/chat'' = RaisedHTTP 404 ''Not found''
   \<and> serve_spa (\<lambda>f. True) ''docs'' = RaisedHTTP 404 ''Not found''
   \<and> serve_spa (\<lambda>f. True) ''redoc/x'' = RaisedHTTP 404 ''Not found''
   \<and> serve_spa (\<lambda>f. True) ''dashboard/users'' = ReturnedFile ''static/index.html''
   \<and> serve_spa (\<lambda>f. False) ''dashboard/users'' = RaisedHTTP 404 ''Frontend not available''"
  using serve_spa_fallback [of "''api/v1/chat''" "\<lambda>f. True"]
    serve_spa_fallback [of "''docs''" "\<lambda>f. True"]
    serve_spa_fallback [of "''redoc/x''" "\<lambda>f. True"]
    serve_spa_fallback [of "''dashboard/users''" "\<lambda>f. True"]
    serve_spa_fallback [of "''dashboard/users''" "\<lambda>f. False"]
  by (simp add: prefix_code)

subsection \<open>C8: the fields of \<open>/health/simple\<close>\<close>

text \<open>
  Claim C8 says that every request \<open>GET /health/simple\<close> is answered with the
  fields \<open>status\<close>, \<open>environment\<close>, \<open>timestamp\<close> and no others. Three facts stand
  against it. The request is matched by the catch-all route and answered by
  \<open>serve_spa\<close>, with a 404 on a deployment without a frontend. The handler
  \<open>simple_health_check\<close> itself, at the production settings, returns a body with a key
  outside these three. And when the settings object has no \<open>ENVIRONMENT\<close> the handler
  raises.
\<close>

theorem simple_health_check_counterexample:
  "handle_get site noon no_frontend healthy_probes healthy_host running ''/health/simple''
   = Handled (Some (RaisedHTTP 404 ''Frontend not available''))
   \<and> \<not> set (response_keys (simple_health_check production noon))
       \<subseteq> {''status'', ''environment'', ''timestamp''}
   \<and> simple_health_check unconfigured noon
     = Raised (attribute_error ''Settings'' ''ENVIRONMENT'')"
proof (intro conjI)
  show "handle_get site noon no_frontend healthy_probes healthy_host running ''/health/simple''
   = Handled (Some (RaisedHTTP 404 ''Frontend not available''))"
    by (simp add: handle_get_def resolve_health_simple path_convertor_def newline_def
        serve_spa_def startswith_def no_frontend_def)
next
  show "\<not> set (response_keys (simple_health_check production noon))
       \<subseteq> {''status'', ''environment'', ''timestamp''}"
    by (simp add: simple_health_check_def get_ENVIRONMENT_def get_RAILWAY_ENVIRONMENT_def
        response_keys_def production_def)
next
  show "simple_health_check unconfigured noon
     = Raised (attribute_error ''Settings'' ''ENVIRONMENT'')"
    by (simp add: simple_health_check_def get_ENVIRONMENT_def unconfigured_def)
qed

text \<open>
  Claim C8, as amended: whenever the handler \<open>simple_health_check\<close> runs and the
  settings object provides \<open>ENVIRONMENT\<close> and \<open>RAILWAY_ENVIRONMENT\<close>, it returns
  the payload with exactly the four fields \<open>status\<close>, \<open>environment\<close>,
  \<open>timestamp\<close> and \<open>railway\<close>, the last being the truth value of
  \<open>settings.RAILWAY_ENVIRONMENT\<close>. This is a statement about the handler; which
  requests reach it is left open.
\<close>

theorem simple_health_check_payload:
  assumes "ENVIRONMENT st = Some environment" and "RAILWAY_ENVIRONMENT st = Some railway"
  shows "simple_health_check st ck = Returned (PDict
           [(''status'', PStr ''healthy''),
            (''environment'', PStr environment),
            (''timestamp'', PStr (utcnow_iso ck)),
            (''railway'', PBool (truthy railway))])
         \<and> response_keys (simple_health_check st ck)
             = [''status'', ''environment'', ''timestamp'', ''railway'']"
  using assms
  by (simp add: simple_health_check_def get_ENVIRONMENT_def get_RAILWAY_ENVIRONMENT_def
      response_keys_def)

text \<open>The amended claim at the production settings.\<close>

theorem simple_health_check_payload_witness:
  "ENVIRONMENT production = Some ''production'' \<and> RAILWAY_ENVIRONMENT production = Some PNone
   \<and> simple_health_check production noon = Returned (PDict
       [(''status'', PStr ''healthy''),
        (''environment'', PStr ''production''),
        (''timestamp'', PStr ''2024-01-01T12:00:00''),
        (''railway'', PBool False)])"
  using simple_health_check_payload [of production "''production''" PNone noon]
  by (simp add: production_def noon_def)

subsection \<open>C9: health probes and timeouts\<close>

text \<open>
  Claim C9 says that the health probes are launched concurrently, each under its own
  timeout, so that one hanging probe cannot stall the health check, and that a probe
  past its timeout is reported as \<open>unknown-timeout\<close>. The handler awaits the database
  probe and then the service probe, with no timeout on either. With a database probe
  that never completes, the handler never returns, although the service probe would
  answer at once.
\<close>

theorem hanging_probe_counterexample:
  "health_check everything production noon (healthy_probes\<lparr>check_connection := Hangs\<rparr>) running
   = None"
  by (simp add: health_check_def get_ENVIRONMENT_def database_status_def production_def
      healthy_probes_def)

text \<open>
  Claim C9, as amended: the handler \<open>health_check\<close> awaits the database probe and
  then the service probe one after the other, neither under a timeout. Once it has
  read \<open>settings.ENVIRONMENT\<close>, it returns exactly when neither of the probes it
  awaits hangs (the database probe is awaited when \<open>db_manager\<close> can be imported, the
  service probe when the enterprise services are available), so a single hanging probe
  stalls the whole health check; and the entry it reports under \<open>database\<close> is
  \<open>healthy\<close>, \<open>unhealthy\<close> or \<open>not_available: <error>\<close>, never
  \<open>unknown-timeout\<close>.
\<close>

theorem health_probes_in_sequence:
  "(health_check caps st ck pr s = None \<longleftrightarrow>
      ENVIRONMENT st \<noteq> None
      \<and> (import_db_manager pr = None \<and> check_connection pr = Hangs
          \<or> ENTERPRISE_AVAILABLE caps \<and> health_check_all_services pr = Hangs))
   \<and> (health_check caps st ck pr s = Some (Returned body)
        \<and> lookup body ''database'' = Some v \<longrightarrow>
      v \<noteq> PStr ''unknown-timeout''
      \<and> (v = PStr ''healthy'' \<or> v = PStr ''unhealthy''
          \<or> (\<exists>message. v = PStr (''not_available: '' @ message))))"
proof (intro conjI impI)
  show "health_check caps st ck pr s = None \<longleftrightarrow>
      ENVIRONMENT st \<noteq> None
      \<and> (import_db_manager pr = None \<and> check_connection pr = Hangs
          \<or> ENTERPRISE_AVAILABLE caps \<and> health_check_all_services pr = Hangs)"
    by (auto simp: health_check_def get_ENVIRONMENT_def database_status_def
        services_status_def Let_def split: option.splits awaited.splits)
next
  assume a: "health_check caps st ck pr s = Some (Returned body)
        \<and> lookup body ''database'' = Some v"
  then obtain database where d: "database_status pr = Some database" and v: "v = PStr database"
    by (auto simp: health_check_def get_ENVIRONMENT_def Let_def update_conv'
        split: option.splits if_splits)
  from d have "database = ''healthy'' \<or> database = ''unhealthy''
      \<or> (\<exists>message. database = ''not_available: '' @ message)"
    by (auto simp: database_status_def split: option.splits awaited.splits)
  with v have c: "v \<noteq> PStr ''unknown-timeout''
      \<and> (v = PStr ''healthy'' \<or> v = PStr ''unhealthy''
          \<or> (\<exists>message. v = PStr (''not_available: '' @ message)))"
    by auto
  from c show "v \<noteq> PStr ''unknown-timeout''" ..
  from c show "v = PStr ''healthy'' \<or> v = PStr ''unhealthy''
          \<or> (\<exists>message. v = PStr (''not_available: '' @ message))" ..
qed

text \<open>
  The amended claim with a service probe that hangs, and with a connection check that
  raises.
\<close>

theorem health_probes_in_sequence_witness:
  "health_check everything production noon
     (healthy_probes\<lparr>health_check_all_services := Hangs\<rparr>) running = None
   \<and> health_check basic_mode production noon
     (healthy_probes\<lparr>check_connection := Raises (PyExc ''OperationalError'' ''refused'')\<rparr>)
     running
     = Some (Returned (PDict
         [(''status'', PStr ''healthy''),
          (''timestamp'', PStr ''2024-01-01T12:00:00''),
          (''version'', PStr ''1.0.0''),
          (''environment'', PStr ''production''),
          (''uptime_seconds'', PFloat 60),
          (''database'', PStr ''not_available: refused'')]))"
  using health_probes_in_sequence [of everything production noon
      "healthy_probes\<lparr>health_check_all_services := Hangs\<rparr>" running]
    health_probes_in_sequence [of basic_mode production noon
      "healthy_probes\<lparr>check_connection := Raises (PyExc ''OperationalError'' ''refused'')\<rparr>"
      running _ "PStr ''not_available: refused''"]
  by (simp add: health_check_def get_ENVIRONMENT_def database_status_def production_def
      healthy_probes_def everything_def basic_mode_def noon_def running_def
      uptime_seconds_def)

subsection \<open>C10: \<open>/metrics\<close> and \<open>/health\<close> before the start time is set\<close>

text \<open>
  Claim C10 says that when \<open>app.state.start_time\<close> has not been set, a call of
  \<open>GET /metrics\<close> is answered by the handler with the error payload, and \<open>GET /health\<close>
  with a report whose \<open>uptime_seconds\<close> is 0. On an application whose lifespan has
  not run, so that the start time is unset, both requests are matched by the
  catch-all route and answered by \<open>serve_spa\<close>, with a 404 on a deployment without a
  frontend: neither handler is called.
\<close>

theorem get_metrics_before_startup:
  "start_time fresh = None
   \<and> handle_get site noon no_frontend healthy_probes healthy_host fresh ''/metrics''
     = Handled (Some (RaisedHTTP 404 ''Frontend not available''))
   \<and> handle_get site noon no_frontend healthy_probes healthy_host fresh ''/health''
     = Handled (Some (RaisedHTTP 404 ''Frontend not available''))"
  by (simp add: handle_get_def resolve_metrics resolve_health path_convertor_def newline_def
      serve_spa_def startswith_def no_frontend_def fresh_def)

section \<open>Further properties\<close>

text \<open>
  Property X1: on every deployment, and whatever the state of the application, the
  requests \<open>GET /health\<close>, \<open>GET /health/simple\<close> and \<open>GET /metrics\<close> are answered by
  \<open>serve_spa\<close>; and no GET request at all is routed to \<open>health_check\<close>,
  \<open>simple_health_check\<close> or \<open>metrics\<close>, because the catch-all route, registered
  before them, matches every path they match.
\<close>

theorem declared_endpoints_shadowed:
  "handle_get dep ck fs pr ps s ''/health'' = Handled (Some (serve_spa fs ''health''))
   \<and> handle_get dep ck fs pr ps s ''/health/simple''
     = Handled (Some (serve_spa fs ''health/simple''))
   \<and> handle_get dep ck fs pr ps s ''/metrics'' = Handled (Some (serve_spa fs ''metrics''))
   \<and> resolve dep p \<noteq> Some Health_route
   \<and> resolve dep p \<noteq> Some Health_simple_route
   \<and> resolve dep p \<noteq> Some Metrics_route"
proof (intro conjI)
  show "handle_get dep ck fs pr ps s ''/health'' = Handled (Some (serve_spa fs ''health''))"
    by (simp add: handle_get_def resolve_health path_convertor_def newline_def)
  show "handle_get dep ck fs pr ps s ''/health/simple''
     = Handled (Some (serve_spa fs ''health/simple''))"
    by (simp add: handle_get_def resolve_health_simple path_convertor_def newline_def)
  show "handle_get dep ck fs pr ps s ''/metrics'' = Handled (Some (serve_spa fs ''metrics''))"
    by (simp add: handle_get_def resolve_metrics path_convertor_def newline_def)
next
  show "resolve dep p \<noteq> Some Health_route"
  proof
    assume r: "resolve dep p = Some Health_route"
    then have "route_matches dep Health_route p"
      unfolding resolve_def by (rule find_Some_iff [THEN iffD1, THEN exE]) auto
    then have "full_path_of p \<noteq> None" by (simp add: catch_all_health)
    with r show False using resolve_before_catch_all by blast
  qed
next
  show "resolve dep p \<noteq> Some Health_simple_route"
  proof
    assume r: "resolve dep p = Some Health_simple_route"
    then have "route_matches dep Health_simple_route p"
      unfolding resolve_def by (rule find_Some_iff [THEN iffD1, THEN exE]) auto
    then have "full_path_of p \<noteq> None" by (simp add: catch_all_health_simple)
    with r show False using resolve_before_catch_all by blast
  qed
next
  show "resolve dep p \<noteq> Some Metrics_route"
  proof
    assume r: "resolve dep p = Some Metrics_route"
    then have "route_matches dep Metrics_route p"
      unfolding resolve_def by (rule find_Some_iff [THEN iffD1, THEN exE]) auto
    then have "full_path_of p \<noteq> None" by (simp add: catch_all_metrics)
    with r show False using resolve_before_catch_all by blast
  qed
qed

text \<open>The property on the deployment without a frontend.\<close>

theorem declared_endpoints_shadowed_witness:
  "handle_get site noon no_frontend healthy_probes healthy_host running ''/health''
     = Handled (Some (RaisedHTTP 404 ''Frontend not available''))
   \<and> handle_get site noon no_frontend healthy_probes healthy_host running ''/health/simple''
     = Handled (Some (RaisedHTTP 404 ''Frontend not available''))
   \<and> handle_get site noon no_frontend healthy_probes healthy_host running ''/metrics''
     = Handled (Some (RaisedHTTP 404 ''Frontend not available''))"
  using declared_endpoints_shadowed
      [of site noon no_frontend healthy_probes healthy_host running]
  by (simp add: serve_spa_def startswith_def no_frontend_def)

text \<open>
  Property X2: the handler \<open>health_check\<close>, whenever it is called and returns, returns
  a body and raises nothing. When building the report raises (the read of
  \<open>settings.ENVIRONMENT\<close>), the body is \<open>{status: "unhealthy", timestamp, error}\<close>.
  A failure of the database probe (importing \<open>db_manager\<close> or calling
  \<open>check_connection\<close>) is stored under \<open>database\<close>, a failure of the service probe
  under \<open>services\<close>, and the report is returned all the same.
\<close>

theorem health_check_handler_contains_failures:
  "(health_check caps st ck pr s = Some r \<longrightarrow> (\<exists>body. r = Returned body))
   \<and> (ENVIRONMENT st = None \<longrightarrow>
        health_check caps st ck pr s
        = Some (Returned (unhealthy_payload (utcnow_iso_except ck)
            (str_exn (attribute_error ''Settings'' ''ENVIRONMENT'')))))
   \<and> (health_check caps st ck pr s = Some (Returned body)
        \<and> ENVIRONMENT st = Some environment \<and> import_db_manager pr = Some e1 \<longrightarrow>
        lookup body ''status'' = Some (PStr ''healthy'')
        \<and> lookup body ''database'' = Some (PStr (''not_available: '' @ str_exn e1)))
   \<and> (health_check caps st ck pr s = Some (Returned body)
        \<and> ENVIRONMENT st = Some environment \<and> import_db_manager pr = None
        \<and> check_connection pr = Raises e2 \<longrightarrow>
        lookup body ''status'' = Some (PStr ''healthy'')
        \<and> lookup body ''database'' = Some (PStr (''not_available: '' @ str_exn e2)))
   \<and> (health_check caps st ck pr s = Some (Returned body)
        \<and> ENVIRONMENT st = Some environment \<and> ENTERPRISE_AVAILABLE caps
        \<and> health_check_all_services pr = Raises e3 \<longrightarrow>
        lookup body ''status'' = Some (PStr ''healthy'')
        \<and> lookup body ''services'' = Some (PStr (''error: '' @ str_exn e3)))"
proof (intro conjI impI)
  assume "health_check caps st ck pr s = Some r"
  then show "\<exists>body. r = Returned body"
    by (auto simp: health_check_def Let_def split: sum.splits option.splits if_splits)
next
  assume "ENVIRONMENT st = None"
  then show "health_check caps st ck pr s
        = Some (Returned (unhealthy_payload (utcnow_iso_except ck)
            (str_exn (attribute_error ''Settings'' ''ENVIRONMENT''))))"
    by (simp add: health_check_def get_ENVIRONMENT_def unhealthy_payload_def)
next
  assume "health_check caps st ck pr s = Some (Returned body)
        \<and> ENVIRONMENT st = Some environment \<and> import_db_manager pr = Some e1"
  then have c: "lookup body ''status'' = Some (PStr ''healthy'')
        \<and> lookup body ''database'' = Some (PStr (''not_available: '' @ str_exn e1))"
    by (auto simp: health_check_def get_ENVIRONMENT_def Let_def update_conv'
        database_status_def split: option.splits if_splits)
  from c show "lookup body ''status'' = Some (PStr ''healthy'')" ..
  from c show "lookup body ''database'' = Some (PStr (''not_available: '' @ str_exn e1))" ..
next
  assume "health_check caps st ck pr s = Some (Returned body)
        \<and> ENVIRONMENT st = Some environment \<and> import_db_manager pr = None
        \<and> check_connection pr = Raises e2"
  then have c: "lookup body ''status'' = Some (PStr ''healthy'')
        \<and> lookup body ''database'' = Some (PStr (''not_available: '' @ str_exn e2))"
    by (auto simp: health_check_def get_ENVIRONMENT_def Let_def update_conv'
        database_status_def split: option.splits if_splits)
  from c show "lookup body ''status'' = Some (PStr ''healthy'')" ..
  from c show "lookup body ''database'' = Some (PStr (''not_available: '' @ str_exn e2))" ..
next
  assume "health_check caps st ck pr s = Some (Returned body)
        \<and> ENVIRONMENT st = Some environment \<and> ENTERPRISE_AVAILABLE caps
        \<and> health_check_all_services pr = Raises e3"
  then have c: "lookup body ''status'' = Some (PStr ''healthy'')
        \<and> lookup body ''services'' = Some (PStr (''error: '' @ str_exn e3))"
    by (auto simp: health_check_def get_ENVIRONMENT_def Let_def update_conv'
        services_status_def split: option.splits if_splits)
  from c show "lookup body ''status'' = Some (PStr ''healthy'')" ..
  from c show "lookup body ''services'' = Some (PStr (''error: '' @ str_exn e3))" ..
qed

text \<open>
  The property at three calls: the settings object has no \<open>ENVIRONMENT\<close>; the
  database module cannot be imported; the connection check and the service probe both
  raise.
\<close>

theorem health_check_handler_contains_failures_witness:
  "health_check everything unconfigured noon healthy_probes running
     = Some (Returned (unhealthy_payload ''2024-01-01T12:00:01''
         (str_exn (attribute_error ''Settings'' ''ENVIRONMENT''))))
   \<and> health_check basic_mode production noon
       (healthy_probes\<lparr>import_db_manager := Some (PyExc ''ImportError'' ''no module'')\<rparr>)
       running
     = Some (Returned (PDict
         [(''status'', PStr ''healthy''),
          (''timestamp'', PStr ''2024-01-01T12:00:00''),
          (''version'', PStr ''1.0.0''),
          (''environment'', PStr ''production''),
          (''uptime_seconds'', PFloat 60),
          (''database'', PStr ''not_available: no module'')]))
   \<and> health_check everything production noon
       (healthy_probes\<lparr>check_connection := Raises (PyExc ''OperationalError'' ''refused''),
          health_check_all_services := Raises (PyExc ''TimeoutError'' ''redis down'')\<rparr>)
       running
     = Some (Returned (PDict
         [(''status'', PStr ''healthy''),
          (''timestamp'', PStr ''2024-01-01T12:00:00''),
          (''version'', PStr ''1.0.0''),
          (''environment'', PStr ''production''),
          (''uptime_seconds'', PFloat 60),
          (''database'', PStr ''not_available: refused''),
          (''services'', PStr ''error: redis down'')]))"
  using health_check_handler_contains_failures
      [of everything unconfigured noon healthy_probes running]
  by (simp add: health_check_def get_ENVIRONMENT_def database_status_def services_status_def
      production_def unconfigured_def healthy_probes_def everything_def basic_mode_def
      noon_def running_def uptime_seconds_def unhealthy_payload_def)

text \<open>
  Property X3: when \<open>app.state.start_time\<close> has not been set, the handler
  \<open>metrics\<close>, called directly, returns the error payload and does not raise, because
  the read of the start time stands unguarded inside the catch-all; when every resource
  read succeeds the message is that of the \<open>AttributeError\<close> of this read. The
  handler \<open>health_check\<close> guards the same read with \<open>hasattr\<close>: the report it
  returns has \<open>uptime_seconds\<close> equal to the integer 0.
\<close>

theorem handlers_without_start_time:
  assumes "start_time s = None"
  shows "(\<exists>message. metrics st ck ps s
            = Returned (error_payload message (utcnow_iso_except ck)))
   \<and> (cpu_percent ps = Inr cpu \<and> virtual_memory ps = Inr memory
        \<and> disk_usage ps = Inr disk \<and> disk_total disk \<noteq> 0 \<and> Process ps = None
        \<and> memory_info ps = Inr process_memory \<and> process_cpu_percent ps = Inr pcpu
        \<and> num_threads ps = Inr threads \<longrightarrow>
      metrics st ck ps s
      = Returned (error_payload (str_exn (attribute_error ''State'' ''start_time''))
          (utcnow_iso_except ck)))
   \<and> (health_check caps st ck pr s = Some (Returned body)
        \<and> ENVIRONMENT st = Some environment \<longrightarrow>
      lookup body ''status'' = Some (PStr ''healthy'')
      \<and> lookup body ''uptime_seconds'' = Some (PInt 0))"
proof (intro conjI impI)
  from assms obtain e where "metrics_data st ck ps s = Inl e"
    using metrics_data_no_start_time by blast
  then have "metrics st ck ps s = Returned (error_payload (str_exn e) (utcnow_iso_except ck))"
    by (rule metrics_Inl)
  then show "\<exists>message. metrics st ck ps s
      = Returned (error_payload message (utcnow_iso_except ck))" ..
next
  assume "cpu_percent ps = Inr cpu \<and> virtual_memory ps = Inr memory
        \<and> disk_usage ps = Inr disk \<and> disk_total disk \<noteq> 0 \<and> Process ps = None
        \<and> memory_info ps = Inr process_memory \<and> process_cpu_percent ps = Inr pcpu
        \<and> num_threads ps = Inr threads"
  with assms have "metrics_data st ck ps s = Inl (attribute_error ''State'' ''start_time'')"
    by (simp add: metrics_data_only_start_time)
  then show "metrics st ck ps s
      = Returned (error_payload (str_exn (attribute_error ''State'' ''start_time''))
          (utcnow_iso_except ck))"
    by (rule metrics_Inl)
next
  assume "health_check caps st ck pr s = Some (Returned body)
        \<and> ENVIRONMENT st = Some environment"
  with assms have c: "lookup body ''status'' = Some (PStr ''healthy'')
      \<and> lookup body ''uptime_seconds'' = Some (PInt 0)"
    by (auto simp: health_check_def get_ENVIRONMENT_def Let_def update_conv'
        uptime_seconds_def split: option.splits if_splits)
  from c show "lookup body ''status'' = Some (PStr ''healthy'')" ..
  from c show "lookup body ''uptime_seconds'' = Some (PInt 0)" ..
qed

text \<open>The property on a healthy host, at the production settings, before any startup.\<close>

theorem handlers_without_start_time_witness:
  "start_time fresh = None
   \<and> metrics production noon healthy_host fresh
     = Returned (PDict
         [(''error'', PStr ''metrics_collection_failed''),
          (''message'', PStr (quoted ''State'' @ '' object has no attribute '' @ quoted ''start_time'')),
          (''timestamp'', PStr ''2024-01-01T12:00:01'')])
   \<and> lookup (PDict
         [(''status'', PStr ''healthy''),
          (''timestamp'', PStr ''2024-01-01T12:00:00''),
          (''version'', PStr ''1.0.0''),
          (''environment'', PStr ''production''),
          (''uptime_seconds'', PInt 0),
          (''database'', PStr ''healthy'')]) ''uptime_seconds'' = Some (PInt 0)
   \<and> health_check basic_mode production noon healthy_probes fresh
     = Some (Returned (PDict
         [(''status'', PStr ''healthy''),
          (''timestamp'', PStr ''2024-01-01T12:00:00''),
          (''version'', PStr ''1.0.0''),
          (''environment'', PStr ''production''),
          (''uptime_seconds'', PInt 0),
          (''database'', PStr ''healthy'')]))"
  using handlers_without_start_time [where s = fresh and ps = healthy_host and cpu = "12.5"
      and memory = "\<lparr>mem_total = 8000, mem_available = 4000, mem_percent = 50\<rparr>"
      and disk = "\<lparr>disk_total = 1000, disk_used = 250\<rparr>"
      and process_memory = "\<lparr>rss = 100, vms = 200\<rparr>" and pcpu = "1.5" and threads = 4
      and st = production and ck = noon and environment = "''production''"
      and caps = basic_mode and pr = healthy_probes]
  by (simp add: fresh_def healthy_host_def production_def noon_def error_payload_def
      attribute_error_def health_check_def get_ENVIRONMENT_def database_status_def
      healthy_probes_def basic_mode_def uptime_seconds_def)

end
